theory Spec2Isabelle
  imports Complex_Main "HOL-Library.Char_ord" "HOL-Library.List_Lexorder"
begin

section \<open>Values, errors and the effects of a request\<close>

text \<open>
  The application is a set of Next.js route handlers over two Mongoose models. Each
  handler is embedded as a function from the state it can touch (the connection cache
  of \<^verbatim>\<open>lib/db\<close>, the two collections, and a trace of the calls made to the outside)
  and the request, to the response and the new state.

  Exceptions are values: the body of every \<^verbatim>\<open>try\<close> block returns \<open>error + 'a\<close>,
  and the \<^verbatim>\<open>catch\<close> block of the handler is the function applied to \<open>Inl e\<close>.
\<close>

datatype error =
    ConnectionFailed    \<comment> \<open>the rejection of \<^verbatim>\<open>mongoose.connect\<close>\<close>
  | SyntaxError         \<comment> \<open>\<^verbatim>\<open>request.json()\<close> on a malformed body, \<^verbatim>\<open>new RegExp\<close> on a malformed pattern\<close>
  | CastError           \<comment> \<open>an id that is not an ObjectId (the spec's InvalidIdentifier)\<close>
  | ValidationError     \<comment> \<open>a schema validator (or a cast inside validation) failed\<close>
  | DuplicateKey        \<comment> \<open>MongoDB's E11000 on a unique index\<close>
  | ServerError         \<comment> \<open>any other error of the driver or the server (the server lost, a timeout)\<close>

text \<open>\<^verbatim>\<open>error.code\<close>: only the server's duplicate-key error carries the code 11000.\<close>

fun code :: "error \<Rightarrow> nat option" where
  "code DuplicateKey = Some 11000"
| "code _ = None"

type_synonym handle = nat
type_synonym oid = nat
type_synonym time = nat

text \<open>
  What the handlers call outside themselves, recorded in the order of the calls:
  the start of a connection attempt, a read sent to a collection, a run of the schema
  validators, and a write sent to a collection.
\<close>

datatype kind = Student | Instructor

datatype event =
    MongooseConnect
  | DbRead kind
  | Validate kind
  | DbWrite kind

subsection \<open>Strings\<close>

text \<open>
  Strings are modelled up to ASCII: \<^verbatim>\<open>trim\<close> and \<^verbatim>\<open>\S\<close> know the six ASCII white-space
  characters (tab, line feed, vertical tab, form feed, carriage return, space), and
  \<^verbatim>\<open>toLowerCase\<close> maps \<open>A\<close>..\<open>Z\<close> to \<open>a\<close>..\<open>z\<close> and leaves every other character alone.
\<close>

definition is_ws :: "char \<Rightarrow> bool" where
  "is_ws c = (c \<in> set [CHR 0x09, CHR 0x0A, CHR 0x0B, CHR 0x0C, CHR 0x0D, CHR 0x20])"

definition trim :: "string \<Rightarrow> string" where
  "trim s = rev (dropWhile is_ws (rev (dropWhile is_ws s)))"

definition lower_char :: "char \<Rightarrow> char" where
  "lower_char c =
     (if CHR ''A'' \<le> c \<and> c \<le> CHR ''Z'' then char_of (of_char c + (32::nat)) else c)"

definition toLowerCase :: "string \<Rightarrow> string" where
  "toLowerCase s = map lower_char s"

section \<open>The connection manager (lib/db)\<close>

text \<open>
  \<^verbatim>\<open>cached = { conn, promise }\<close> lives on \<^verbatim>\<open>global\<close>. A promise is modelled by the
  outcome it settles to: \<open>Inr h\<close> when \<^verbatim>\<open>mongoose.connect\<close> resolves with the handle \<open>h\<close>,
  \<open>Inl e\<close> when it rejects with \<open>e\<close>. A call runs to its end before the next one starts;
  a call may still find a promise that an earlier caller has left in the cache.
\<close>

record cache =
  conn :: "handle option"
  promise :: "(error + handle) option"

record doc =
  doc_id :: oid
  name :: string
  age :: rat
  email :: string
  createdAt :: time
  updatedAt :: time

record world =
  cached :: cache
  students :: "doc list"
  instructors :: "doc list"
  trace :: "event list"

text \<open>
  What a request meets outside the program: the outcome of a connection attempt
  started now, the clock, the ObjectId a new document would get, and the error with
  which the storage call of the request fails, if it does (the server lost after the
  connection was made, a timeout).
\<close>

record env =
  connect :: "error + handle"
  now :: time
  newId :: oid
  storage :: "error option"

text \<open>
  \<open>connectToDatabase c w\<close>: \<open>c\<close> is what \<^verbatim>\<open>mongoose.connect(MONGODB_URI, opts)\<close>
  does if this call invokes it. The \<^verbatim>\<open>.catch\<close> handler on the promise and the
  \<^verbatim>\<open>catch\<close> block around the \<^verbatim>\<open>await\<close> both reset \<^verbatim>\<open>cached.promise\<close> and rethrow.
\<close>

definition connectToDatabase :: "(error + handle) \<Rightarrow> world \<Rightarrow> (error + handle) \<times> world" where
  "connectToDatabase c w =
     (case conn (cached w) of
        Some h \<Rightarrow> (Inr h, w)
      | None \<Rightarrow>
          let (p, w1) =
                (case promise (cached w) of
                   None \<Rightarrow>
                     (c,
                      w\<lparr>cached := (cached w)\<lparr>promise := Some c\<rparr>,
                        trace := trace w @ [MongooseConnect]\<rparr>)
                 | Some p \<Rightarrow> (p, w))
          in (case p of
                Inr h \<Rightarrow> (Inr h, w1\<lparr>cached := (cached w1)\<lparr>conn := Some h\<rparr>\<rparr>)
              | Inl e \<Rightarrow> (Inl e, w1\<lparr>cached := (cached w1)\<lparr>promise := None\<rparr>\<rparr>)))"


section \<open>Request values and the library's part\<close>

text \<open>
  A JSON value, as \<^verbatim>\<open>request.json()\<close> returns it; an object is the list of its entries
  (their keys differ). A number is the exact rational value of the parsed number; how
  a literal is rounded to a double, and a literal too large for one, are outside the
  model.

  POST destructures \<^verbatim>\<open>{ name, age, email }\<close> from its body and looks at nothing else,
  so the body of a POST is the record of these three fields: a field is a \<open>json option\<close>,
  \<open>None\<close> for a key that is absent (\<^verbatim>\<open>undefined\<close>). PUT hands its body to Mongoose as it
  is, so the body of a PUT is the JSON value itself. \<open>None\<close> for a whole body is a body
  \<^verbatim>\<open>request.json()\<close> cannot parse.
\<close>

datatype json =
    JNull | JBool bool | JNum rat | JStr string
  | JArr "json list"
  | JObj "(string \<times> json) list"

record body =
  body_name :: "json option"
  body_age :: "json option"
  body_email :: "json option"

text \<open>JavaScript's truthiness, as \<^verbatim>\<open>!name || !age || !email\<close> reads it.\<close>

fun truthy :: "json option \<Rightarrow> bool" where
  "truthy None = False"
| "truthy (Some JNull) = False"
| "truthy (Some (JBool b)) = b"
| "truthy (Some (JNum r)) = (r \<noteq> 0)"
| "truthy (Some (JStr s)) = (s \<noteq> [])"
| "truthy (Some (JArr xs)) = True"
| "truthy (Some (JObj kvs)) = True"

text \<open>
  What the handlers leave to Mongoose, the BSON library and the regular-expression
  engine, and what this development does not fix, is a parameter of every handler:
  \<^item> \<open>castObjectId\<close>: the ObjectId a route's \<^verbatim>\<open>id\<close> string denotes, if any;
  \<^item> \<open>castStringOther\<close>, \<open>castNumberOther\<close>: the cast of a value that is not already a
    string (a number) to the schema type String (Number); \<open>None\<close> when the cast fails
    or gives \<^verbatim>\<open>null\<close>;
  \<^item> \<open>regExpOther\<close>: \<^verbatim>\<open>new RegExp(q, 'i')\<close> for a pattern that uses a syntax character
    other than the dot; \<open>None\<close> when the constructor throws;
  \<^item> \<open>rejectOther\<close>, \<open>updateOther\<close>: what \<^verbatim>\<open>findByIdAndUpdate\<close> does with an update body
    that is not one of the three shapes read below (plain fields, \<^verbatim>\<open>$min\<close>, \<^verbatim>\<open>$max\<close>):
    the error thrown before anything is sent, if one is, and otherwise the document the
    server makes of the stored one at the given time, or the error it raises.
\<close>

record runtime =
  castObjectId :: "string \<Rightarrow> oid option"
  castStringOther :: "json \<Rightarrow> string option"
  castNumberOther :: "json \<Rightarrow> rat option"
  regExpOther :: "string \<Rightarrow> (string \<Rightarrow> bool) option"
  rejectOther :: "json \<Rightarrow> error option"
  updateOther :: "json \<Rightarrow> time \<Rightarrow> doc \<Rightarrow> error + doc"

fun castString :: "runtime \<Rightarrow> json option \<Rightarrow> string option" where
  "castString rt None = None"
| "castString rt (Some JNull) = None"
| "castString rt (Some (JStr s)) = Some s"
| "castString rt (Some v) = castStringOther rt v"

fun castNumber :: "runtime \<Rightarrow> json option \<Rightarrow> rat option" where
  "castNumber rt None = None"
| "castNumber rt (Some JNull) = None"
| "castNumber rt (Some (JNum r)) = Some r"
| "castNumber rt (Some v) = castNumberOther rt v"

section \<open>The schemas (models/Student, models/Instructor)\<close>

text \<open>
  The pattern \<^verbatim>\<open>/^\S+@\S+\.\S+$/\<close> of both schemas, as the list of its five items, and
  its matcher: a backtracking match of the whole string.
\<close>

datatype rx = NonSpaces | Ch char

fun rx_match :: "rx list \<Rightarrow> string \<Rightarrow> bool" where
  "rx_match [] s = (s = [])"
| "rx_match (Ch c # r) [] = False"
| "rx_match (Ch c # r) (d # s) = (d = c \<and> rx_match r s)"
| "rx_match (NonSpaces # r) [] = False"
| "rx_match (NonSpaces # r) (d # s) =
     (\<not> is_ws d \<and> (rx_match r s \<or> rx_match (NonSpaces # r) s))"

definition email_pattern :: "rx list" where
  "email_pattern = [NonSpaces, Ch (CHR ''@''), NonSpaces, Ch (CHR ''.''), NonSpaces]"

text \<open>
  The setters of the \<^verbatim>\<open>email\<close> path: \<^verbatim>\<open>lowercase: true, trim: true\<close> for a student,
  \<^verbatim>\<open>lowercase: true\<close> alone for an instructor. \<^verbatim>\<open>name\<close> has \<^verbatim>\<open>trim: true\<close> in both.
\<close>

fun email_setters :: "kind \<Rightarrow> string \<Rightarrow> string" where
  "email_setters Student s = trim (toLowerCase s)"
| "email_setters Instructor s = toLowerCase s"

text \<open>
  One path's cast, setters and validators; \<open>None\<close> when the path fails validation.
  \<^verbatim>\<open>required\<close> rejects a missing value, \<^verbatim>\<open>null\<close> and the empty string; \<^verbatim>\<open>min: 1\<close>
  rejects a number below 1; \<^verbatim>\<open>match\<close> rejects a string the pattern does not match.
\<close>

definition validate_name :: "runtime \<Rightarrow> json option \<Rightarrow> string option" where
  "validate_name rt v =
     (case castString rt v of
        None \<Rightarrow> None
      | Some s \<Rightarrow> if trim s = [] then None else Some (trim s))"

definition validate_age :: "runtime \<Rightarrow> json option \<Rightarrow> rat option" where
  "validate_age rt v =
     (case castNumber rt v of
        None \<Rightarrow> None
      | Some r \<Rightarrow> if 1 \<le> r then Some r else None)"

definition validate_email :: "runtime \<Rightarrow> kind \<Rightarrow> json option \<Rightarrow> string option" where
  "validate_email rt k v =
     (case castString rt v of
        None \<Rightarrow> None
      | Some s \<Rightarrow>
          if email_setters k s \<noteq> [] \<and> rx_match email_pattern (email_setters k s)
          then Some (email_setters k s) else None)"

section \<open>The collections\<close>

fun coll :: "kind \<Rightarrow> world \<Rightarrow> doc list" where
  "coll Student w = students w"
| "coll Instructor w = instructors w"

fun set_coll :: "kind \<Rightarrow> doc list \<Rightarrow> world \<Rightarrow> world" where
  "set_coll Student ds w = w\<lparr>students := ds\<rparr>"
| "set_coll Instructor ds w = w\<lparr>instructors := ds\<rparr>"

definition record_event :: "event \<Rightarrow> world \<Rightarrow> world" where
  "record_event ev w = w\<lparr>trace := trace w @ [ev]\<rparr>"

text \<open>
  \<^verbatim>\<open>new Model({name, age, email})\<close> followed by \<^verbatim>\<open>save()\<close>: validation, then the insert,
  which fails when the storage call fails and which the server refuses with E11000
  when \<^verbatim>\<open>_id\<close> or the unique \<^verbatim>\<open>email\<close> is taken. \<^verbatim>\<open>timestamps: true\<close> sets both dates to
  the time of the save.
\<close>

definition save :: "runtime \<Rightarrow> kind \<Rightarrow> env \<Rightarrow> body \<Rightarrow> world \<Rightarrow> (error + doc) \<times> world" where
  "save rt k ev b w =
     (let w1 = record_event (Validate k) w in
      case (validate_name rt (body_name b), validate_age rt (body_age b),
            validate_email rt k (body_email b)) of
        (Some n, Some a, Some e) \<Rightarrow>
          (let d = \<lparr>doc_id = newId ev, name = n, age = a, email = e,
                    createdAt = now ev, updatedAt = now ev\<rparr>;
               w2 = record_event (DbWrite k) w1
           in case storage ev of
                Some x \<Rightarrow> (Inl x, w2)
              | None \<Rightarrow>
                  if newId ev \<in> set (map doc_id (coll k w)) \<or> e \<in> set (map email (coll k w))
                  then (Inl DuplicateKey, w2)
                  else (Inr d, set_coll k (coll k w @ [d]) w2))
      | _ \<Rightarrow> (Inl ValidationError, w1))"

text \<open>\<^verbatim>\<open>findById(id)\<close>: the cast of the id, then the read.\<close>

definition findById :: "runtime \<Rightarrow> kind \<Rightarrow> env \<Rightarrow> string \<Rightarrow> world \<Rightarrow> (error + doc option) \<times> world" where
  "findById rt k ev i w =
     (case castObjectId rt i of
        None \<Rightarrow> (Inl CastError, w)
      | Some j \<Rightarrow>
          (case storage ev of
             Some x \<Rightarrow> (Inl x, record_event (DbRead k) w)
           | None \<Rightarrow> (Inr (find (\<lambda>d. doc_id d = j) (coll k w)), record_event (DbRead k) w)))"

subsection \<open>Updates\<close>

text \<open>
  How Mongoose reads the body of \<^verbatim>\<open>findByIdAndUpdate(id, body, ...)\<close>. Three shapes are
  read here, each over the schema paths name, age and email:
  \<^item> an object of plain keys, which Mongoose takes as \<^verbatim>\<open>$set\<close>;
  \<^item> \<^verbatim>\<open>{ "$min": { ... } }\<close> and \<^verbatim>\<open>{ "$max": { ... } }\<close>, with at least one path.
  Any other body (other operators, other keys, a value that is not an object) is left
  to the runtime, with the body itself.
\<close>

datatype update = Fields body | Min body | Max body | Other json

definition to_body :: "(string \<times> json) list \<Rightarrow> body" where
  "to_body kvs =
     \<lparr>body_name = map_of kvs ''name'', body_age = map_of kvs ''age'',
      body_email = map_of kvs ''email''\<rparr>"

definition schema_keys :: "(string \<times> json) list \<Rightarrow> bool" where
  "schema_keys kvs = list_all (\<lambda>kv. fst kv \<in> set [''name'', ''age'', ''email'']) kvs"

definition read_update :: "json \<Rightarrow> update" where
  "read_update b =
     (case b of
        JObj kvs \<Rightarrow>
          if schema_keys kvs then Fields (to_body kvs)
          else (case kvs of
                  [(op, JObj ps)] \<Rightarrow>
                    if op = ''$min'' \<and> ps \<noteq> [] \<and> schema_keys ps then Min (to_body ps)
                    else if op = ''$max'' \<and> ps \<noteq> [] \<and> schema_keys ps then Max (to_body ps)
                    else Other b
                | _ \<Rightarrow> Other b)
      | _ \<Rightarrow> Other b)"

text \<open>
  With \<^verbatim>\<open>runValidators: true\<close> the update validators check the paths of \<^verbatim>\<open>$set\<close>: a plain
  field is cast, passed through its setters and validated as in \<^verbatim>\<open>save\<close>. They do not
  look at \<^verbatim>\<open>$min\<close> and \<^verbatim>\<open>$max\<close>: there a value is cast and passed through the setters, and
  that is all.
\<close>

definition supplied :: "('a option \<Rightarrow> 'b option) \<Rightarrow> 'a option \<Rightarrow> ('b option) option" where
  "supplied validate v =
     (case v of
        None \<Rightarrow> Some None
      | Some x \<Rightarrow> (case validate v of None \<Rightarrow> None | Some y \<Rightarrow> Some (Some y)))"

definition cast_name :: "runtime \<Rightarrow> json option \<Rightarrow> string option" where
  "cast_name rt v = map_option trim (castString rt v)"

definition cast_email :: "runtime \<Rightarrow> kind \<Rightarrow> json option \<Rightarrow> string option" where
  "cast_email rt k v = map_option (email_setters k) (castString rt v)"

text \<open>
  What the server does to the stored document: \<^verbatim>\<open>$set\<close> replaces a field, \<^verbatim>\<open>$min\<close>
  (\<^verbatim>\<open>$max\<close>) replaces it when the given value is smaller (greater), strings compared
  character by character; \<^verbatim>\<open>timestamps: true\<close> sets \<^verbatim>\<open>updatedAt\<close> in each case.
\<close>

definition apply_update :: "string option \<Rightarrow> rat option \<Rightarrow> string option \<Rightarrow> time \<Rightarrow> doc \<Rightarrow> doc" where
  "apply_update n a e t d =
     d\<lparr>name := (case n of None \<Rightarrow> name d | Some x \<Rightarrow> x),
       age := (case a of None \<Rightarrow> age d | Some x \<Rightarrow> x),
       email := (case e of None \<Rightarrow> email d | Some x \<Rightarrow> x),
       updatedAt := t\<rparr>"

definition apply_min :: "string option \<Rightarrow> rat option \<Rightarrow> string option \<Rightarrow> time \<Rightarrow> doc \<Rightarrow> doc" where
  "apply_min n a e t d =
     d\<lparr>name := (case n of None \<Rightarrow> name d | Some x \<Rightarrow> min x (name d)),
       age := (case a of None \<Rightarrow> age d | Some x \<Rightarrow> min x (age d)),
       email := (case e of None \<Rightarrow> email d | Some x \<Rightarrow> min x (email d)),
       updatedAt := t\<rparr>"

definition apply_max :: "string option \<Rightarrow> rat option \<Rightarrow> string option \<Rightarrow> time \<Rightarrow> doc \<Rightarrow> doc" where
  "apply_max n a e t d =
     d\<lparr>name := (case n of None \<Rightarrow> name d | Some x \<Rightarrow> max x (name d)),
       age := (case a of None \<Rightarrow> age d | Some x \<Rightarrow> max x (age d)),
       email := (case e of None \<Rightarrow> email d | Some x \<Rightarrow> max x (email d)),
       updatedAt := t\<rparr>"

text \<open>
  The server's part of an update of the document with the id \<open>j\<close>: the call may fail;
  no document, no change; otherwise the document is replaced by what the update makes
  of it, unless the update fails, would change \<^verbatim>\<open>_id\<close>, or gives an email another
  document holds (E11000).
\<close>

definition update_one ::
  "kind \<Rightarrow> env \<Rightarrow> oid \<Rightarrow> (doc \<Rightarrow> error + doc) \<Rightarrow> world \<Rightarrow> (error + doc option) \<times> world" where
  "update_one k ev j f w =
     (let w1 = record_event (DbWrite k) w in
      case storage ev of
        Some x \<Rightarrow> (Inl x, w1)
      | None \<Rightarrow>
          (case find (\<lambda>d. doc_id d = j) (coll k w) of
             None \<Rightarrow> (Inr None, w1)
           | Some d \<Rightarrow>
               (case f d of
                  Inl e \<Rightarrow> (Inl e, w1)
                | Inr d' \<Rightarrow>
                    if doc_id d' \<noteq> j then (Inl ServerError, w1)
                    else if list_ex (\<lambda>x. doc_id x \<noteq> j \<and> email x = email d') (coll k w)
                    then (Inl DuplicateKey, w1)
                    else (Inr (Some d'),
                          set_coll k (map (\<lambda>x. if doc_id x = j then d' else x) (coll k w)) w1))))"

definition other_update ::
  "runtime \<Rightarrow> kind \<Rightarrow> env \<Rightarrow> oid \<Rightarrow> json \<Rightarrow> world \<Rightarrow> (error + doc option) \<times> world" where
  "other_update rt k ev j b w =
     (case rejectOther rt b of
        Some e \<Rightarrow> (Inl e, w)
      | None \<Rightarrow> update_one k ev j (updateOther rt b (now ev)) w)"

text \<open>
  \<^verbatim>\<open>findByIdAndUpdate(id, body, { new: true, runValidators: true })\<close>: the cast of the id,
  the reading of the body with its casts and validators, then the server's update.
  The result is the document after the update. A \<^verbatim>\<open>$min\<close> or \<^verbatim>\<open>$max\<close> with a value that
  has no cast is left to the runtime.
\<close>

definition findByIdAndUpdate ::
  "runtime \<Rightarrow> kind \<Rightarrow> env \<Rightarrow> string \<Rightarrow> json \<Rightarrow> world \<Rightarrow> (error + doc option) \<times> world" where
  "findByIdAndUpdate rt k ev i b w =
     (case castObjectId rt i of
        None \<Rightarrow> (Inl CastError, w)
      | Some j \<Rightarrow>
          (let w1 = record_event (Validate k) w in
           case read_update b of
             Fields fs \<Rightarrow>
               (case (supplied (validate_name rt) (body_name fs),
                      supplied (validate_age rt) (body_age fs),
                      supplied (validate_email rt k) (body_email fs)) of
                  (Some n, Some a, Some e) \<Rightarrow>
                    update_one k ev j (\<lambda>d. Inr (apply_update n a e (now ev) d)) w1
                | _ \<Rightarrow> (Inl ValidationError, w1))
           | Min ps \<Rightarrow>
               (case (supplied (cast_name rt) (body_name ps),
                      supplied (castNumber rt) (body_age ps),
                      supplied (cast_email rt k) (body_email ps)) of
                  (Some n, Some a, Some e) \<Rightarrow>
                    update_one k ev j (\<lambda>d. Inr (apply_min n a e (now ev) d)) w1
                | _ \<Rightarrow> other_update rt k ev j b w1)
           | Max ps \<Rightarrow>
               (case (supplied (cast_name rt) (body_name ps),
                      supplied (castNumber rt) (body_age ps),
                      supplied (cast_email rt k) (body_email ps)) of
                  (Some n, Some a, Some e) \<Rightarrow>
                    update_one k ev j (\<lambda>d. Inr (apply_max n a e (now ev) d)) w1
                | _ \<Rightarrow> other_update rt k ev j b w1)
           | Other x \<Rightarrow> other_update rt k ev j x w1))"

text \<open>\<^verbatim>\<open>findByIdAndDelete(id)\<close>: the deleted document, or \<^verbatim>\<open>null\<close>.\<close>

definition findByIdAndDelete ::
  "runtime \<Rightarrow> kind \<Rightarrow> env \<Rightarrow> string \<Rightarrow> world \<Rightarrow> (error + doc option) \<times> world" where
  "findByIdAndDelete rt k ev i w =
     (case castObjectId rt i of
        None \<Rightarrow> (Inl CastError, w)
      | Some j \<Rightarrow>
          (let w1 = record_event (DbWrite k) w in
           case storage ev of
             Some x \<Rightarrow> (Inl x, w1)
           | None \<Rightarrow>
               (case find (\<lambda>d. doc_id d = j) (coll k w) of
                  None \<Rightarrow> (Inr None, w1)
                | Some d \<Rightarrow>
                    (Inr (Some d), set_coll k (filter (\<lambda>x. doc_id x \<noteq> j) (coll k w)) w1))))"

section \<open>The search pattern\<close>

text \<open>
  \<^verbatim>\<open>new RegExp(q, 'i')\<close> reads the query as a pattern. A query whose characters are
  pattern characters and dots is read here; any other is left to the runtime. A
  pattern character matches itself up to case, a dot any character but the line
  feed, and \<^verbatim>\<open>$regex\<close> looks for a match starting anywhere in the field.
\<close>

definition syntax_character :: "char \<Rightarrow> bool" where
  "syntax_character c =
     (c \<in> set [CHR ''^'', CHR ''$'', CHR 0x5C, CHR ''.'', CHR ''*'', CHR ''+'', CHR ''?'',
               CHR ''('', CHR '')'', CHR ''['', CHR '']'', CHR ''{'', CHR ''}'', CHR ''|''])"

datatype atom = Lit char | Dot

fun atom_of :: "char \<Rightarrow> atom" where
  "atom_of c = (if c = CHR ''.'' then Dot else Lit c)"

fun atom_match :: "atom \<Rightarrow> char \<Rightarrow> bool" where
  "atom_match (Lit c) d = (lower_char c = lower_char d)"
| "atom_match Dot d = (d \<noteq> CHR 0x0A)"

fun match_here :: "atom list \<Rightarrow> string \<Rightarrow> bool" where
  "match_here [] s = True"
| "match_here (a # as) [] = False"
| "match_here (a # as) (d # s) = (atom_match a d \<and> match_here as s)"

fun regex_search :: "atom list \<Rightarrow> string \<Rightarrow> bool" where
  "regex_search as [] = match_here as []"
| "regex_search as (d # s) = (match_here as (d # s) \<or> regex_search as s)"

definition RegExp_i :: "runtime \<Rightarrow> string \<Rightarrow> (string \<Rightarrow> bool) option" where
  "RegExp_i rt q =
     (if list_all (\<lambda>c. c = CHR ''.'' \<or> \<not> syntax_character c) q
      then Some (regex_search (map atom_of q))
      else regExpOther rt q)"

section \<open>Responses\<close>

datatype outval = OId oid | ONum rat | OStr string | ODate time

type_synonym obj = "(string \<times> outval) list"

datatype payload = Docs "obj list" | Doc obj | Err string | Msg string

record response =
  status :: nat
  payload :: payload

text \<open>\<^verbatim>\<open>NextResponse.json(data)\<close> answers 200 unless a status is given.\<close>

definition ok :: "payload \<Rightarrow> response" where
  "ok p = \<lparr>status = 200, payload = p\<rparr>"

text \<open>
  A whole document as JSON, and a document under \<^verbatim>\<open>.select('name age email')\<close>: an
  inclusive projection keeps \<^verbatim>\<open>_id\<close> unless it is excluded by name.
\<close>

definition toJSON :: "doc \<Rightarrow> obj" where
  "toJSON d =
     [(''_id'', OId (doc_id d)), (''name'', OStr (name d)), (''age'', ONum (age d)),
      (''email'', OStr (email d)), (''createdAt'', ODate (createdAt d)),
      (''updatedAt'', ODate (updatedAt d)), (''__v'', ONum 0)]"

definition select_name_age_email :: "doc \<Rightarrow> obj" where
  "select_name_age_email d =
     [(''_id'', OId (doc_id d)), (''name'', OStr (name d)), (''age'', ONum (age d)),
      (''email'', OStr (email d))]"

fun noun :: "kind \<Rightarrow> string" where
  "noun Student = ''student''"
| "noun Instructor = ''instructor''"

fun Noun :: "kind \<Rightarrow> string" where
  "Noun Student = ''Student''"
| "Noun Instructor = ''Instructor''"

section \<open>The route handlers\<close>

subsection \<open>GET /api/students/search\<close>

definition search_try :: "runtime \<Rightarrow> env \<Rightarrow> string \<Rightarrow> world \<Rightarrow> (error + response) \<times> world" where
  "search_try rt ev q w =
     (case connectToDatabase (connect ev) w of
        (Inl e, w1) \<Rightarrow> (Inl e, w1)
      | (Inr h, w1) \<Rightarrow>
          (case RegExp_i rt q of
             None \<Rightarrow> (Inl SyntaxError, w1)
           | Some regex \<Rightarrow>
               (case storage ev of
                  Some x \<Rightarrow> (Inl x, record_event (DbRead Student) w1)
                | None \<Rightarrow>
                    (Inr (ok (Docs (map select_name_age_email
                       (take 50 (sort_key name
                          (filter (\<lambda>d. regex (name d) \<or> regex (email d)) (students w1))))))),
                     record_event (DbRead Student) w1))))"

definition search_GET :: "runtime \<Rightarrow> env \<Rightarrow> string option \<Rightarrow> world \<Rightarrow> response \<times> world" where
  "search_GET rt ev query w =
     (case map_option trim query of
        None \<Rightarrow> (ok (Docs []), w)
      | Some q \<Rightarrow>
          if q = [] \<or> length q < 1 then (ok (Docs []), w)
          else (case search_try rt ev q w of
                  (Inr r, w') \<Rightarrow> (r, w')
                | (Inl e, w') \<Rightarrow>
                    (\<lparr>status = 500, payload = Err ''Failed to search students''\<rparr>, w')))"

subsection \<open>GET and POST /api/students, /api/instructors\<close>

definition list_GET :: "kind \<Rightarrow> env \<Rightarrow> world \<Rightarrow> response \<times> world" where
  "list_GET k ev w =
     (case connectToDatabase (connect ev) w of
        (Inl e, w1) \<Rightarrow>
          (\<lparr>status = 500, payload = Err (''Failed to fetch '' @ noun k @ ''s'')\<rparr>, w1)
      | (Inr h, w1) \<Rightarrow>
          (case storage ev of
             Some x \<Rightarrow>
               (\<lparr>status = 500, payload = Err (''Failed to fetch '' @ noun k @ ''s'')\<rparr>,
                record_event (DbRead k) w1)
           | None \<Rightarrow>
               (ok (Docs (map toJSON (sort_key (\<lambda>d. - int (createdAt d)) (coll k w1)))),
                record_event (DbRead k) w1)))"

definition POST_try :: "runtime \<Rightarrow> kind \<Rightarrow> env \<Rightarrow> body option \<Rightarrow> world \<Rightarrow> (error + response) \<times> world" where
  "POST_try rt k ev b w =
     (case connectToDatabase (connect ev) w of
        (Inl e, w1) \<Rightarrow> (Inl e, w1)
      | (Inr h, w1) \<Rightarrow>
          (case b of
             None \<Rightarrow> (Inl SyntaxError, w1)
           | Some bd \<Rightarrow>
               if \<not> truthy (body_name bd) \<or> \<not> truthy (body_age bd) \<or> \<not> truthy (body_email bd)
               then (Inr \<lparr>status = 400, payload = Err ''All fields are required''\<rparr>, w1)
               else (case save rt k ev bd w1 of
                       (Inl e, w2) \<Rightarrow> (Inl e, w2)
                     | (Inr d, w2) \<Rightarrow> (Inr \<lparr>status = 201, payload = Doc (toJSON d)\<rparr>, w2))))"

definition POST_catch :: "kind \<Rightarrow> error \<Rightarrow> response" where
  "POST_catch k e =
     (if code e = Some 11000 then \<lparr>status = 400, payload = Err ''Email already exists''\<rparr>
      else \<lparr>status = 500, payload = Err (''Failed to create '' @ noun k)\<rparr>)"

definition POST :: "runtime \<Rightarrow> kind \<Rightarrow> env \<Rightarrow> body option \<Rightarrow> world \<Rightarrow> response \<times> world" where
  "POST rt k ev b w =
     (case POST_try rt k ev b w of
        (Inr r, w') \<Rightarrow> (r, w')
      | (Inl e, w') \<Rightarrow> (POST_catch k e, w'))"

subsection \<open>GET, PUT and DELETE /api/students/[id], /api/instructors/[id]\<close>

definition not_found :: "kind \<Rightarrow> response" where
  "not_found k = \<lparr>status = 404, payload = Err (Noun k @ '' not found'')\<rparr>"

definition GET_try :: "runtime \<Rightarrow> kind \<Rightarrow> env \<Rightarrow> string \<Rightarrow> world \<Rightarrow> (error + response) \<times> world" where
  "GET_try rt k ev i w =
     (case connectToDatabase (connect ev) w of
        (Inl e, w1) \<Rightarrow> (Inl e, w1)
      | (Inr h, w1) \<Rightarrow>
          (case findById rt k ev i w1 of
             (Inl e, w2) \<Rightarrow> (Inl e, w2)
           | (Inr None, w2) \<Rightarrow> (Inr (not_found k), w2)
           | (Inr (Some d), w2) \<Rightarrow> (Inr (ok (Doc (toJSON d))), w2)))"

definition GET :: "runtime \<Rightarrow> kind \<Rightarrow> env \<Rightarrow> string \<Rightarrow> world \<Rightarrow> response \<times> world" where
  "GET rt k ev i w =
     (case GET_try rt k ev i w of
        (Inr r, w') \<Rightarrow> (r, w')
      | (Inl e, w') \<Rightarrow> (\<lparr>status = 400, payload = Err ''Invalid ID or server error''\<rparr>, w'))"

definition PUT_try ::
  "runtime \<Rightarrow> kind \<Rightarrow> env \<Rightarrow> string \<Rightarrow> json option \<Rightarrow> world \<Rightarrow> (error + response) \<times> world" where
  "PUT_try rt k ev i b w =
     (case connectToDatabase (connect ev) w of
        (Inl e, w1) \<Rightarrow> (Inl e, w1)
      | (Inr h, w1) \<Rightarrow>
          (case b of
             None \<Rightarrow> (Inl SyntaxError, w1)
           | Some bd \<Rightarrow>
               (case findByIdAndUpdate rt k ev i bd w1 of
                  (Inl e, w2) \<Rightarrow> (Inl e, w2)
                | (Inr None, w2) \<Rightarrow> (Inr (not_found k), w2)
                | (Inr (Some d), w2) \<Rightarrow> (Inr (ok (Doc (toJSON d))), w2))))"

definition PUT ::
  "runtime \<Rightarrow> kind \<Rightarrow> env \<Rightarrow> string \<Rightarrow> json option \<Rightarrow> world \<Rightarrow> response \<times> world" where
  "PUT rt k ev i b w =
     (case PUT_try rt k ev i b w of
        (Inr r, w') \<Rightarrow> (r, w')
      | (Inl e, w') \<Rightarrow> (\<lparr>status = 400, payload = Err ''Failed to update''\<rparr>, w'))"

definition DELETE_try :: "runtime \<Rightarrow> kind \<Rightarrow> env \<Rightarrow> string \<Rightarrow> world \<Rightarrow> (error + response) \<times> world" where
  "DELETE_try rt k ev i w =
     (case connectToDatabase (connect ev) w of
        (Inl e, w1) \<Rightarrow> (Inl e, w1)
      | (Inr h, w1) \<Rightarrow>
          (case findByIdAndDelete rt k ev i w1 of
             (Inl e, w2) \<Rightarrow> (Inl e, w2)
           | (Inr None, w2) \<Rightarrow> (Inr (not_found k), w2)
           | (Inr (Some d), w2) \<Rightarrow>
               (Inr \<lparr>status = 200, payload = Msg (Noun k @ '' deleted successfully'')\<rparr>, w2)))"

definition DELETE :: "runtime \<Rightarrow> kind \<Rightarrow> env \<Rightarrow> string \<Rightarrow> world \<Rightarrow> response \<times> world" where
  "DELETE rt k ev i w =
     (case DELETE_try rt k ev i w of
        (Inr r, w') \<Rightarrow> (r, w')
      | (Inl e, w') \<Rightarrow> (\<lparr>status = 500, payload = Err ''Failed to delete''\<rparr>, w'))"

subsection \<open>The requests the application serves\<close>

datatype request =
    Search "string option"
  | List kind
  | Create kind "body option"
  | Read kind string
  | Update kind string "json option"
  | Delete kind string

fun serve :: "runtime \<Rightarrow> env \<Rightarrow> request \<Rightarrow> world \<Rightarrow> response \<times> world" where
  "serve rt ev (Search q) w = search_GET rt ev q w"
| "serve rt ev (List k) w = list_GET k ev w"
| "serve rt ev (Create k b) w = POST rt k ev b w"
| "serve rt ev (Read k i) w = GET rt k ev i w"
| "serve rt ev (Update k i b) w = PUT rt k ev i b w"
| "serve rt ev (Delete k i) w = DELETE rt k ev i w"

definition initial_world :: world where
  "initial_world =
     \<lparr>cached = \<lparr>conn = None, promise = None\<rparr>, students = [], instructors = [], trace = []\<rparr>"

inductive reachable :: "runtime \<Rightarrow> world \<Rightarrow> bool" for rt :: runtime where
  start: "reachable rt initial_world"
| step: "reachable rt w \<Longrightarrow> reachable rt (snd (serve rt ev req w))"


text \<open>
  Reachability follows the application from the empty database through any sequence
  of requests; \<open>run\<close> plays a given sequence from a given state.
\<close>

fun run :: "runtime \<Rightarrow> (env \<times> request) list \<Rightarrow> world \<Rightarrow> world" where
  "run rt [] w = w"
| "run rt ((ev, req) # rs) w = run rt rs (snd (serve rt ev req w))"

text \<open>The body \<^verbatim>\<open>{ age: 30 }\<close>.\<close>

definition age_30 :: json where
  "age_30 = JObj [(''age'', JNum 30)]"

section \<open>The words of the specification\<close>

text \<open>
  Two notions the specification uses and the code does not define, written from its
  words, to be compared with the code: a query contained in a field as a
  case-insensitive substring, and the one status the specification gives each kind of
  failure (400 for validation, duplicate and malformed identifier, 500 for a failed
  connection and for anything unclassified).
\<close>

definition contains_ci :: "string \<Rightarrow> string \<Rightarrow> bool" where
  "contains_ci q s = (\<exists>pre suf. toLowerCase s = pre @ toLowerCase q @ suf)"

fun spec_status :: "error \<Rightarrow> nat" where
  "spec_status ValidationError = 400"
| "spec_status DuplicateKey = 400"
| "spec_status CastError = 400"
| "spec_status ConnectionFailed = 500"
| "spec_status SyntaxError = 500"
| "spec_status ServerError = 500"

section \<open>Invariants of the collections\<close>

text \<open>
  The unique indexes: in a collection no two documents have the same \<^verbatim>\<open>_id\<close> or the
  same email. The server keeps them whatever the request.
\<close>

definition index_inv :: "doc list \<Rightarrow> bool" where
  "index_inv ds = (distinct (map email ds) \<and> distinct (map doc_id ds))"

definition indexes_hold :: "world \<Rightarrow> bool" where
  "indexes_hold w = (index_inv (students w) \<and> index_inv (instructors w))"

text \<open>
  The normal form of a stored email, and the requests that keep it: every request
  but a PUT whose body is not an object of plain fields.
\<close>

definition email_normalised :: "string \<Rightarrow> bool" where
  "email_normalised e = (trim e = e \<and> toLowerCase e = e \<and> rx_match email_pattern e)"

definition emails_normalised :: "world \<Rightarrow> bool" where
  "emails_normalised w =
     (list_all (\<lambda>d. email_normalised (email d)) (students w) \<and>
      list_all (\<lambda>d. email_normalised (email d)) (instructors w))"

fun plain :: "request \<Rightarrow> bool" where
  "plain (Update k i (Some b)) = (case read_update b of Fields fs \<Rightarrow> True | _ \<Rightarrow> False)"
| "plain req = True"

section \<open>Concrete requests\<close>

text \<open>
  The theorems below hold for every runtime. To evaluate the handlers on concrete
  requests one runtime is fixed: an id is an ObjectId when it is 24 hexadecimal digits
  (the number they write), and everything else the model leaves to the library is
  declined. The concrete requests below give strings for names and emails, numbers for
  ages, queries of pattern characters and dots and update bodies of the three shapes
  read above, so that apart from the ids the handlers never consult it.
\<close>

definition hex_digit :: "char \<Rightarrow> nat option" where
  "hex_digit c =
     (if CHR ''0'' \<le> c \<and> c \<le> CHR ''9'' then Some (of_char c - 48)
      else if CHR ''a'' \<le> c \<and> c \<le> CHR ''f'' then Some (of_char c - 87)
      else if CHR ''A'' \<le> c \<and> c \<le> CHR ''F'' then Some (of_char c - 55)
      else None)"

fun hex_value :: "nat \<Rightarrow> string \<Rightarrow> nat option" where
  "hex_value acc [] = Some acc"
| "hex_value acc (c # s) =
     (case hex_digit c of None \<Rightarrow> None | Some v \<Rightarrow> hex_value (16 * acc + v) s)"

definition strict_runtime :: runtime where
  "strict_runtime =
     \<lparr>castObjectId = (\<lambda>s. if length s = 24 then hex_value 0 s else None),
      castStringOther = (\<lambda>v. None),
      castNumberOther = (\<lambda>v. None),
      regExpOther = (\<lambda>q. None),
      rejectOther = (\<lambda>b. Some ServerError),
      updateOther = (\<lambda>b t d. Inr d)\<rparr>"

text \<open>A request served while the database answers (with the handle 1), at a given time
  and with a given fresh id; a request served while the database is unreachable; and a
  request whose connection attempt would succeed and whose storage call fails.\<close>

definition online :: "time \<Rightarrow> oid \<Rightarrow> env" where
  "online t i = \<lparr>connect = Inr 1, now = t, newId = i, storage = None\<rparr>"

definition offline :: env where
  "offline =
     \<lparr>connect = Inl ConnectionFailed, now = 0, newId = 0, storage = Some ServerError\<rparr>"

definition failing :: "time \<Rightarrow> oid \<Rightarrow> env" where
  "failing t i = \<lparr>connect = Inr 1, now = t, newId = i, storage = Some ServerError\<rparr>"

definition form_body :: "string \<Rightarrow> rat \<Rightarrow> string \<Rightarrow> body" where
  "form_body n a e =
     \<lparr>body_name = Some (JStr n), body_age = Some (JNum a), body_email = Some (JStr e)\<rparr>"

text \<open>The database after one student has been created from the empty state.\<close>

definition with_ann :: world where
  "with_ann =
     snd (serve strict_runtime (online 100 1)
            (Create Student (Some (form_body ''Ann'' 20 ''  Ann@X.COM ''))) initial_world)"

text \<open>The body \<^verbatim>\<open>{ "$min": { "email": "!" } }\<close>.\<close>

definition min_email :: json where
  "min_email = JObj [(''$min'', JObj [(''email'', JStr ''!'')])]"

definition with_eve :: world where
  "with_eve =
     snd (serve strict_runtime (online 100 7)
            (Create Student (Some (form_body ''Eve'' 31 ''john@gmailxcom.org''))) initial_world)"

section \<open>Basic facts\<close>

lemmas handler_defs =
  search_GET_def search_try_def list_GET_def POST_def POST_try_def POST_catch_def GET_def
  GET_try_def PUT_def PUT_try_def DELETE_def DELETE_try_def not_found_def ok_def
  connectToDatabase_def save_def findById_def findByIdAndUpdate_def findByIdAndDelete_def
  update_one_def other_update_def read_update_def to_body_def schema_keys_def
  apply_update_def apply_min_def apply_max_def supplied_def cast_name_def cast_email_def
  validate_name_def validate_age_def validate_email_def
  record_event_def RegExp_i_def syntax_character_def

lemmas example_defs =
  strict_runtime_def online_def offline_def failing_def form_body_def age_30_def
  min_email_def initial_world_def
  hex_digit_def trim_def is_ws_def toLowerCase_def lower_char_def char_of_def bit_Suc_0_iff
  email_pattern_def toJSON_def select_name_age_email_def Let_def

subsection \<open>Events and collections\<close>

lemma coll_record_event [simp]: "coll k (record_event ev w) = coll k w"
  by (cases k) (simp_all add: record_event_def)

lemma cached_record_event [simp]: "cached (record_event ev w) = cached w"
  by (simp add: record_event_def)

lemma cached_set_coll [simp]: "cached (set_coll k ds w) = cached w"
  by (cases k) simp_all

lemma coll_set_coll: "coll k' (set_coll k ds w) = (if k' = k then ds else coll k' w)"
  by (cases k; cases k') simp_all

lemma find_SomeD: "find P xs = Some x \<Longrightarrow> P x \<and> x \<in> set xs"
  by (auto simp: find_Some_iff)

subsection \<open>The connection manager\<close>

lemma connect_when_cached:
  "conn (cached w) = Some h \<Longrightarrow> connectToDatabase c w = (Inr h, w)"
  by (simp add: connectToDatabase_def)

lemma students_connect [simp]: "students (snd (connectToDatabase c w)) = students w"
  by (auto simp: connectToDatabase_def split: option.splits sum.splits)

lemma instructors_connect [simp]: "instructors (snd (connectToDatabase c w)) = instructors w"
  by (auto simp: connectToDatabase_def split: option.splits sum.splits)

lemma coll_connect [simp]: "coll k (snd (connectToDatabase c w)) = coll k w"
  by (cases k) simp_all

lemma trace_connect:
  "trace (snd (connectToDatabase c w)) = trace w \<or>
   trace (snd (connectToDatabase c w)) = trace w @ [MongooseConnect]"
  by (auto simp: connectToDatabase_def split: option.splits sum.splits)

lemma connect_Inr_conn:
  "connectToDatabase c w = (Inr h, w') \<Longrightarrow> conn (cached w') = Some h"
  by (auto simp: connectToDatabase_def split: option.splits sum.splits)

text \<open>Only the connection manager writes the cache.\<close>

lemma cached_update_one [simp]: "cached (snd (update_one k ev j f w)) = cached w"
  by (auto simp: update_one_def Let_def split: option.splits sum.splits)

lemma cached_other_update [simp]: "cached (snd (other_update rt k ev j b w)) = cached w"
  by (simp add: other_update_def split: option.splits)

lemma cached_save [simp]: "cached (snd (save rt k ev b w)) = cached w"
  by (auto simp: save_def Let_def split: option.splits if_splits)

lemma cached_findById [simp]: "cached (snd (findById rt k ev i w)) = cached w"
  by (auto simp: findById_def split: option.splits)

lemma cached_findByIdAndUpdate [simp]:
  "cached (snd (findByIdAndUpdate rt k ev i b w)) = cached w"
  by (simp add: findByIdAndUpdate_def Let_def split: option.splits update.splits)

lemma cached_findByIdAndDelete [simp]:
  "cached (snd (findByIdAndDelete rt k ev i w)) = cached w"
  by (auto simp: findByIdAndDelete_def Let_def split: option.splits)

text \<open>The state a handler leaves is the state its \<^verbatim>\<open>try\<close> block leaves, and that is the
  state after the connection step or after the one storage operation of the route.\<close>

lemma snd_POST: "snd (POST rt k ev b w) = snd (POST_try rt k ev b w)"
  by (simp add: POST_def split: prod.splits sum.splits)

lemma snd_GET: "snd (GET rt k ev i w) = snd (GET_try rt k ev i w)"
  by (simp add: GET_def split: prod.splits sum.splits)

lemma snd_PUT: "snd (PUT rt k ev i b w) = snd (PUT_try rt k ev i b w)"
  by (simp add: PUT_def split: prod.splits sum.splits)

lemma snd_DELETE: "snd (DELETE rt k ev i w) = snd (DELETE_try rt k ev i w)"
  by (simp add: DELETE_def split: prod.splits sum.splits)

lemma snd_POST_try:
  "snd (POST_try rt k ev b w) = snd (connectToDatabase (connect ev) w) \<or>
   (\<exists>bd. snd (POST_try rt k ev b w) =
      snd (save rt k ev bd (snd (connectToDatabase (connect ev) w))))"
  by (auto simp: POST_try_def split: prod.splits sum.splits option.splits) (metis snd_conv)+

lemma snd_GET_try:
  "snd (GET_try rt k ev i w) = snd (connectToDatabase (connect ev) w) \<or>
   snd (GET_try rt k ev i w) = snd (findById rt k ev i (snd (connectToDatabase (connect ev) w)))"
  by (auto simp: GET_try_def split: prod.splits sum.splits option.splits)

lemma snd_PUT_try:
  "snd (PUT_try rt k ev i b w) = snd (connectToDatabase (connect ev) w) \<or>
   (\<exists>bd. b = Some bd \<and> snd (PUT_try rt k ev i b w) =
      snd (findByIdAndUpdate rt k ev i bd (snd (connectToDatabase (connect ev) w))))"
  by (auto simp: PUT_try_def split: prod.splits sum.splits option.splits)

lemma snd_DELETE_try:
  "snd (DELETE_try rt k ev i w) = snd (connectToDatabase (connect ev) w) \<or>
   snd (DELETE_try rt k ev i w) =
     snd (findByIdAndDelete rt k ev i (snd (connectToDatabase (connect ev) w)))"
  by (auto simp: DELETE_try_def split: prod.splits sum.splits option.splits)

lemma snd_search_GET:
  "snd (search_GET rt ev q w) = w \<or>
   snd (search_GET rt ev q w) = snd (connectToDatabase (connect ev) w) \<or>
   snd (search_GET rt ev q w) =
     record_event (DbRead Student) (snd (connectToDatabase (connect ev) w))"
  by (auto simp: search_GET_def search_try_def split: prod.splits sum.splits option.splits)

lemma snd_list_GET:
  "snd (list_GET k ev w) = snd (connectToDatabase (connect ev) w) \<or>
   snd (list_GET k ev w) = record_event (DbRead k) (snd (connectToDatabase (connect ev) w))"
  by (auto simp: list_GET_def split: prod.splits sum.splits option.splits)

lemma serve_keeps_connection:
  assumes "conn (cached w) = Some h"
  shows "cached (snd (serve rt ev req w)) = cached w"
proof -
  have c: "snd (connectToDatabase (connect ev) w) = w"
    using assms by (simp add: connect_when_cached)
  show ?thesis
  proof (cases req)
    case (Search q)
    then show ?thesis using snd_search_GET [of rt ev q w] by (auto simp: c)
  next
    case (List k)
    then show ?thesis using snd_list_GET [of k ev w] by (auto simp: c)
  next
    case (Create k b)
    then show ?thesis using snd_POST_try [of rt k ev b w] by (auto simp: c snd_POST)
  next
    case (Read k i)
    then show ?thesis using snd_GET_try [of rt k ev i w] by (auto simp: c snd_GET)
  next
    case (Update k i b)
    then show ?thesis using snd_PUT_try [of rt k ev i b w] by (auto simp: c snd_PUT)
  next
    case (Delete k i)
    then show ?thesis using snd_DELETE_try [of rt k ev i w] by (auto simp: c snd_DELETE)
  qed
qed

lemma run_keeps_connection:
  "conn (cached w) = Some h \<Longrightarrow> cached (run rt rs w) = cached w"
proof (induction rs arbitrary: w)
  case Nil
  then show ?case by simp
next
  case (Cons r rs)
  obtain ev req where r: "r = (ev, req)" by (cases r)
  have c: "cached (snd (serve rt ev req w)) = cached w"
    using Cons.prems by (rule serve_keeps_connection)
  then have "conn (cached (snd (serve rt ev req w))) = Some h" using Cons.prems by simp
  from Cons.IH [OF this] c show ?case by (simp add: r)
qed

subsection \<open>Strings and the email pattern\<close>

lemma lower_char_idem: "lower_char (lower_char c) = lower_char c"
  by (auto simp: lower_char_def less_eq_char_def)

lemma toLowerCase_fixed_iff: "toLowerCase s = s \<longleftrightarrow> (\<forall>c\<in>set s. lower_char c = c)"
  by (induction s) (auto simp: toLowerCase_def)

lemma set_trim: "set (trim s) \<subseteq> set s"
proof -
  have "set (dropWhile is_ws (rev (dropWhile is_ws s))) \<subseteq> set (rev (dropWhile is_ws s))"
    by (rule set_dropWhileD [THEN subsetI])
  also have "\<dots> \<subseteq> set s" using set_dropWhileD by fastforce
  finally show ?thesis by (simp add: trim_def)
qed

lemma toLowerCase_setters: "toLowerCase (email_setters k s) = email_setters k s"
proof -
  have a: "\<forall>c\<in>set (toLowerCase s). lower_char c = c"
    by (auto simp: toLowerCase_def lower_char_idem)
  show ?thesis
  proof (cases k)
    case Student
    then show ?thesis using a set_trim [of "toLowerCase s"]
      by (auto simp: toLowerCase_fixed_iff)
  next
    case Instructor
    then show ?thesis using a by (simp add: toLowerCase_fixed_iff)
  qed
qed

text \<open>A string the pattern matches has no white space, so trimming leaves it as it is:
  an instructor's email, which has no \<^verbatim>\<open>trim\<close> setter, is trimmed too once it is validated.\<close>

lemma rx_match_no_ws:
  "rx_match r s \<Longrightarrow> \<forall>c. Ch c \<in> set r \<longrightarrow> \<not> is_ws c \<Longrightarrow> \<forall>d\<in>set s. \<not> is_ws d"
  by (induction r s rule: rx_match.induct) auto

lemma email_pattern_no_ws: "rx_match email_pattern s \<Longrightarrow> \<forall>d\<in>set s. \<not> is_ws d"
  by (rule rx_match_no_ws) (auto simp: email_pattern_def is_ws_def)

lemma dropWhile_none: "\<forall>d\<in>set s. \<not> P d \<Longrightarrow> dropWhile P s = s"
  by (cases s) auto

lemma trim_no_ws: "\<forall>d\<in>set s. \<not> is_ws d \<Longrightarrow> trim s = s"
  by (simp add: trim_def dropWhile_none)

lemma validate_email_normalised:
  "validate_email rt k v = Some e \<Longrightarrow> email_normalised e"
  by (auto simp: validate_email_def email_normalised_def toLowerCase_setters
      trim_no_ws email_pattern_no_ws split: option.splits if_splits)

lemma supplied_email_normalised:
  "supplied (validate_email rt k) v = Some (Some e) \<Longrightarrow> email_normalised e"
  by (auto simp: supplied_def split: option.splits dest: validate_email_normalised)

subsection \<open>The unique indexes hold in every reachable state\<close>

lemma distinct_email_update:
  assumes "distinct (map doc_id ds)" and "distinct (map email ds)"
    and "\<forall>x\<in>set ds. doc_id x \<noteq> j \<longrightarrow> email x \<noteq> email d'"
  shows "distinct (map email (map (\<lambda>x. if doc_id x = j then d' else x) ds))"
  using assms
proof (induction ds)
  case Nil
  then show ?case by simp
next
  case (Cons x xs)
  let ?f = "\<lambda>x. if doc_id x = j then d' else x"
  show ?case
  proof (cases "doc_id x = j")
    case True
    have "doc_id x \<notin> doc_id ` set xs" using Cons.prems(1) by simp
    then have noj: "\<forall>y\<in>set xs. doc_id y \<noteq> j" using True by (metis imageI)
    then have same: "map ?f xs = xs" by (simp add: map_idI)
    have "\<forall>y\<in>set xs. email y \<noteq> email d'" using noj Cons.prems(3) by simp
    then have "email d' \<notin> email ` set xs" by (metis imageE)
    moreover have "distinct (map email xs)" using Cons.prems(2) by simp
    ultimately show ?thesis using True same by simp
  next
    case False
    have ne: "email x \<noteq> email d'" using False Cons.prems(3) by simp
    have "email x \<notin> email ` set xs" using Cons.prems(2) by simp
    then have out: "\<forall>y\<in>set xs. email y \<noteq> email x" by (metis imageI)
    have "\<forall>y\<in>set xs. email (?f y) \<noteq> email x" using ne out by simp
    then have "email x \<notin> (\<lambda>y. email (?f y)) ` set xs" by (metis (no_types, lifting) imageE)
    moreover have "distinct (map (\<lambda>y. email (?f y)) xs)"
      using Cons.IH Cons.prems by (simp add: comp_def)
    ultimately show ?thesis using False by (simp add: comp_def del: if_image_distrib)
  qed
qed

lemma index_inv_append:
  assumes "index_inv ds"
    and "doc_id d \<notin> set (map doc_id ds)" and "email d \<notin> set (map email ds)"
  shows "index_inv (ds @ [d])"
  using assms by (auto simp: index_inv_def)

lemma index_inv_filter: "index_inv ds \<Longrightarrow> index_inv (filter P ds)"
  by (auto simp: index_inv_def distinct_map_filter)

lemma index_inv_update:
  assumes "index_inv ds" and "doc_id d' = j"
    and "\<not> list_ex (\<lambda>x. doc_id x \<noteq> j \<and> email x = email d') ds"
  shows "index_inv (map (\<lambda>x. if doc_id x = j then d' else x) ds)"
proof -
  let ?f = "\<lambda>x. if doc_id x = j then d' else x"
  have ids: "map doc_id (map ?f ds) = map doc_id ds"
    using assms(2) by (induction ds) auto
  have "\<forall>x\<in>set ds. doc_id x \<noteq> j \<longrightarrow> email x \<noteq> email d'"
    using assms(3) by (auto simp: list_ex_iff)
  then have "distinct (map email (map ?f ds))"
    using assms(1) by (intro distinct_email_update) (auto simp: index_inv_def)
  moreover have "distinct (map doc_id (map ?f ds))"
    using assms(1) by (simp only: ids) (simp add: index_inv_def)
  ultimately show ?thesis unfolding index_inv_def by blast
qed

lemma indexes_hold_collD: "indexes_hold w \<Longrightarrow> index_inv (coll k w)"
  by (cases k) (simp_all add: indexes_hold_def)

lemma indexes_hold_record_event [simp]: "indexes_hold (record_event ev w) = indexes_hold w"
  by (simp add: indexes_hold_def record_event_def)

lemma indexes_hold_connect [simp]:
  "indexes_hold (snd (connectToDatabase c w)) = indexes_hold w"
  by (simp add: indexes_hold_def)

lemma indexes_hold_set_coll:
  "indexes_hold w \<Longrightarrow> index_inv ds \<Longrightarrow> indexes_hold (set_coll k ds w)"
  by (cases k) (simp_all add: indexes_hold_def)

lemma indexes_hold_save: "indexes_hold w \<Longrightarrow> indexes_hold (snd (save rt k ev b w))"
  by (auto simp: save_def Let_def split: option.splits
      intro!: indexes_hold_set_coll index_inv_append dest: indexes_hold_collD)

lemma indexes_hold_update_one:
  "indexes_hold w \<Longrightarrow> indexes_hold (snd (update_one k ev j f w))"
  by (auto simp: update_one_def Let_def split: option.splits sum.splits
      intro!: indexes_hold_set_coll index_inv_update dest: indexes_hold_collD)

lemma indexes_hold_update:
  "indexes_hold w \<Longrightarrow> indexes_hold (snd (findByIdAndUpdate rt k ev i b w))"
  by (simp add: findByIdAndUpdate_def other_update_def Let_def indexes_hold_update_one
      split: option.splits update.splits)

lemma indexes_hold_delete:
  "indexes_hold w \<Longrightarrow> indexes_hold (snd (findByIdAndDelete rt k ev i w))"
  by (auto simp: findByIdAndDelete_def Let_def split: option.splits
      intro!: indexes_hold_set_coll index_inv_filter dest: indexes_hold_collD)

lemma indexes_hold_findById [simp]:
  "indexes_hold (snd (findById rt k ev i w)) = indexes_hold w"
  by (auto simp: findById_def split: option.splits)

lemma indexes_hold_serve:
  assumes "indexes_hold w"
  shows "indexes_hold (snd (serve rt ev req w))"
proof (cases req)
  case (Search q)
  then show ?thesis using assms snd_search_GET [of rt ev q w] by auto
next
  case (List k)
  then show ?thesis using assms snd_list_GET [of k ev w] by auto
next
  case (Create k b)
  then show ?thesis using assms snd_POST_try [of rt k ev b w]
    by (auto simp: snd_POST indexes_hold_save)
next
  case (Read k i)
  then show ?thesis using assms snd_GET_try [of rt k ev i w] by (auto simp: snd_GET)
next
  case (Update k i b)
  then show ?thesis using assms snd_PUT_try [of rt k ev i b w]
    by (auto simp: snd_PUT indexes_hold_update)
next
  case (Delete k i)
  then show ?thesis using assms snd_DELETE_try [of rt k ev i w]
    by (auto simp: snd_DELETE indexes_hold_delete)
qed

lemma indexes_hold_initial: "indexes_hold initial_world"
  by (simp add: indexes_hold_def initial_world_def index_inv_def)

lemma reachable_indexes_hold: "reachable rt w \<Longrightarrow> indexes_hold w"
  by (induction rule: reachable.induct) (simp_all add: indexes_hold_initial indexes_hold_serve)

subsection \<open>Creates and plain updates keep the stored emails normalised\<close>

lemma normalised_collD:
  "emails_normalised w \<Longrightarrow> list_all (\<lambda>d. email_normalised (email d)) (coll k w)"
  by (cases k) (simp_all add: emails_normalised_def)

lemma normalised_record_event [simp]:
  "emails_normalised (record_event ev w) = emails_normalised w"
  by (simp add: emails_normalised_def record_event_def)

lemma normalised_connect [simp]:
  "emails_normalised (snd (connectToDatabase c w)) = emails_normalised w"
  by (simp add: emails_normalised_def)

lemma normalised_set_coll:
  "emails_normalised w \<Longrightarrow> list_all (\<lambda>d. email_normalised (email d)) ds \<Longrightarrow>
   emails_normalised (set_coll k ds w)"
  by (cases k) (simp_all add: emails_normalised_def)

lemma normalised_save: "emails_normalised w \<Longrightarrow> emails_normalised (snd (save rt k ev b w))"
  by (auto simp: save_def Let_def split: option.splits
      intro!: normalised_set_coll dest: validate_email_normalised normalised_collD)

lemma normalised_update_one:
  assumes "emails_normalised w"
    and "\<And>d d'. d \<in> set (coll k w) \<Longrightarrow> f d = Inr d' \<Longrightarrow> email_normalised (email d')"
  shows "emails_normalised (snd (update_one k ev j f w))"
proof -
  have all: "list_all (\<lambda>d. email_normalised (email d)) (coll k w)"
    using assms(1) by (rule normalised_collD)
  have "list_all (\<lambda>d. email_normalised (email d))
          (map (\<lambda>x. if doc_id x = j then d' else x) (coll k w))"
    if "find (\<lambda>x. doc_id x = j) (coll k w) = Some d" and "f d = Inr d'" for d d'
  proof -
    have "d \<in> set (coll k w)" using that(1) by (auto dest: find_SomeD)
    then have "email_normalised (email d')" using that(2) by (rule assms(2))
    then show ?thesis using all by (auto simp: list_all_iff)
  qed
  then show ?thesis using assms(1)
    by (auto simp: update_one_def Let_def split: option.splits sum.splits
        intro!: normalised_set_coll)
qed

lemma email_apply_update:
  "email (apply_update n a e t d) = (case e of None \<Rightarrow> email d | Some x \<Rightarrow> x)"
  by (simp add: apply_update_def)

lemma normalised_plain_update:
  assumes "emails_normalised w" and "read_update b = Fields fs"
  shows "emails_normalised (snd (findByIdAndUpdate rt k ev i b w))"
proof -
  have norm: "email_normalised (email (apply_update n a e t d))"
    if "d \<in> set (coll k w)"
      and "supplied (validate_email rt k) (body_email fs) = Some e" for n a e t d
  proof (cases e)
    case None
    then show ?thesis using that(1) normalised_collD [OF assms(1), of k]
      by (simp add: email_apply_update list_all_iff)
  next
    case (Some x)
    then show ?thesis using that(2) by (simp add: email_apply_update supplied_email_normalised)
  qed
  have "emails_normalised (snd (update_one k ev j (\<lambda>d. Inr (apply_update n a e (now ev) d))
          (record_event (Validate k) w)))"
    if "supplied (validate_email rt k) (body_email fs) = Some e" for j n a e
    using assms(1) that by (intro normalised_update_one) (auto intro: norm)
  then show ?thesis using assms
    by (auto simp: findByIdAndUpdate_def Let_def split: option.splits)
qed

lemma normalised_delete:
  assumes "emails_normalised w"
  shows "emails_normalised (snd (findByIdAndDelete rt k ev i w))"
proof -
  have "list_all (\<lambda>d. email_normalised (email d)) (filter P (coll k w))" for P
    using normalised_collD [OF assms, of k] by (simp add: list_all_iff)
  then show ?thesis using assms
    by (auto simp: findByIdAndDelete_def Let_def split: option.splits
        intro!: normalised_set_coll)
qed

lemma normalised_findById [simp]:
  "emails_normalised (snd (findById rt k ev i w)) = emails_normalised w"
  by (auto simp: findById_def split: option.splits)

lemma plain_keeps_emails_normalised:
  assumes "emails_normalised w" and "plain req"
  shows "emails_normalised (snd (serve rt ev req w))"
proof (cases req)
  case (Search q)
  then show ?thesis using assms snd_search_GET [of rt ev q w] by auto
next
  case (List k)
  then show ?thesis using assms snd_list_GET [of k ev w] by auto
next
  case (Create k b)
  then show ?thesis using assms snd_POST_try [of rt k ev b w]
    by (auto simp: snd_POST normalised_save)
next
  case (Read k i)
  then show ?thesis using assms snd_GET_try [of rt k ev i w] by (auto simp: snd_GET)
next
  case (Update k i b)
  then show ?thesis using assms snd_PUT_try [of rt k ev i b w]
    by (auto simp: snd_PUT normalised_plain_update split: update.splits)
next
  case (Delete k i)
  then show ?thesis using assms snd_DELETE_try [of rt k ev i w]
    by (auto simp: snd_DELETE normalised_delete)
qed

subsection \<open>Updating one document\<close>

lemma find_update:
  "find (\<lambda>x. doc_id x = j) ds = Some d \<Longrightarrow> doc_id d' = j \<Longrightarrow>
   find (\<lambda>x. doc_id x = j) (map (\<lambda>x. if doc_id x = j then d' else x) ds) = Some d'"
  by (induction ds) (auto split: if_splits)

lemma filter_update:
  "doc_id d' = j \<Longrightarrow>
   filter (\<lambda>x. doc_id x \<noteq> j) (map (\<lambda>x. if doc_id x = j then d' else x) ds) =
   filter (\<lambda>x. doc_id x \<noteq> j) ds"
  by (induction ds) auto

lemma no_email_clash:
  assumes "index_inv ds" and "find (\<lambda>x. doc_id x = j) ds = Some d"
  shows "\<not> list_ex (\<lambda>x. doc_id x \<noteq> j \<and> email x = email d) ds"
proof
  assume "list_ex (\<lambda>x. doc_id x \<noteq> j \<and> email x = email d) ds"
  then obtain x where x: "x \<in> set ds" "doc_id x \<noteq> j" "email x = email d"
    by (auto simp: list_ex_iff)
  have d: "d \<in> set ds" "doc_id d = j" using assms(2) by (auto dest: find_SomeD)
  have "inj_on email (set ds)" using assms(1) by (simp add: index_inv_def distinct_map)
  then have "x = d" using x(1,3) d(1) by (simp add: inj_on_def)
  then show False using x(2) d(2) by simp
qed

lemma read_age_30:
  "read_update age_30 =
     Fields \<lparr>body_name = None, body_age = Some (JNum 30), body_email = None\<rparr>"
  by (simp add: age_30_def read_update_def schema_keys_def to_body_def)

lemma update_age_30:
  assumes "index_inv (coll k w)" and "castObjectId rt i = Some j"
    and "find (\<lambda>x. doc_id x = j) (coll k w) = Some d"
  shows "findByIdAndUpdate rt k ev i age_30 w =
           (case storage ev of
              Some x \<Rightarrow> (Inl x, record_event (DbWrite k) (record_event (Validate k) w))
            | None \<Rightarrow>
                (Inr (Some (d\<lparr>age := 30, updatedAt := now ev\<rparr>)),
                 set_coll k
                   (map (\<lambda>x. if doc_id x = j then d\<lparr>age := 30, updatedAt := now ev\<rparr> else x)
                      (coll k w))
                   (record_event (DbWrite k) (record_event (Validate k) w))))"
proof -
  have j: "doc_id d = j" using assms(3) by (auto dest: find_SomeD)
  have "\<not> list_ex (\<lambda>x. doc_id x \<noteq> j \<and> email x = email d) (coll k w)"
    using assms(1,3) by (rule no_email_clash)
  then show ?thesis using assms(2,3) j
    by (simp add: findByIdAndUpdate_def read_age_30 update_one_def supplied_def
        validate_age_def apply_update_def Let_def split: option.splits)
qed

subsection \<open>Creating a document\<close>

lemma save_rejects_bad_age:
  assumes "\<forall>r. castNumber rt (body_age bd) = Some r \<longrightarrow> r < 1"
  shows "save rt k ev bd w = (Inl ValidationError, record_event (Validate k) w)"
proof -
  have "validate_age rt (body_age bd) = None"
    using assms by (auto simp: validate_age_def split: option.splits)
  then show ?thesis by (simp add: save_def Let_def split: option.splits)
qed

lemma create_accepts:
  assumes "fst (connectToDatabase (connect ev) w) = Inr h" and "storage ev = None"
    and "truthy (body_name bd)" and "truthy (body_age bd)" and "truthy (body_email bd)"
    and "validate_name rt (body_name bd) = Some n"
    and "castNumber rt (body_age bd) = Some r" and "1 \<le> r"
    and "validate_email rt k (body_email bd) = Some e"
    and "newId ev \<notin> set (map doc_id (coll k w))" and "e \<notin> set (map email (coll k w))"
  shows "fst (POST rt k ev (Some bd) w) =
           \<lparr>status = 201,
            payload = Doc (toJSON \<lparr>doc_id = newId ev, name = n, age = r, email = e,
                                   createdAt = now ev, updatedAt = now ev\<rparr>)\<rparr> \<and>
         coll k (snd (POST rt k ev (Some bd) w)) =
           coll k w @ [\<lparr>doc_id = newId ev, name = n, age = r, email = e,
                        createdAt = now ev, updatedAt = now ev\<rparr>]"
proof -
  obtain w1 where c: "connectToDatabase (connect ev) w = (Inr h, w1)"
    using assms(1) by (cases "connectToDatabase (connect ev) w") simp
  have same: "coll k w1 = coll k w" using coll_connect [of k "connect ev" w] c by simp
  have a: "validate_age rt (body_age bd) = Some r"
    using assms(7,8) by (simp add: validate_age_def)
  show ?thesis using assms c same a
    by (simp add: POST_def POST_try_def save_def Let_def coll_set_coll)
qed

subsection \<open>The status of every answer\<close>

text \<open>
  For each route, the status as a function of what the request is and meets: the
  outcome of the connection step, the body, the casts and validators, the outcome of
  the storage call and the content of the collection.
\<close>

lemma list_status:
  "status (fst (list_GET k ev w)) =
     (case fst (connectToDatabase (connect ev) w) of
        Inl e \<Rightarrow> 500
      | Inr h \<Rightarrow> (case storage ev of Some x \<Rightarrow> 500 | None \<Rightarrow> 200))"
  by (cases "connectToDatabase (connect ev) w")
    (simp add: list_GET_def ok_def split: sum.splits option.splits)

lemma search_status:
  assumes "trim q \<noteq> []"
  shows "status (fst (search_GET rt ev (Some q) w)) =
     (case fst (connectToDatabase (connect ev) w) of
        Inl e \<Rightarrow> 500
      | Inr h \<Rightarrow>
          (case RegExp_i rt (trim q) of
             None \<Rightarrow> 500
           | Some regex \<Rightarrow> (case storage ev of Some x \<Rightarrow> 500 | None \<Rightarrow> 200)))"
  using assms
  by (cases "connectToDatabase (connect ev) w")
    (simp add: search_GET_def search_try_def ok_def split: sum.splits option.splits)

lemma POST_status:
  "status (fst (POST rt k ev b w)) =
     (case fst (connectToDatabase (connect ev) w) of
        Inl e \<Rightarrow> if e = DuplicateKey then 400 else 500
      | Inr h \<Rightarrow>
          (case b of
             None \<Rightarrow> 500
           | Some bd \<Rightarrow>
               if \<not> (truthy (body_name bd) \<and> truthy (body_age bd) \<and> truthy (body_email bd))
               then 400
               else if validate_name rt (body_name bd) = None \<or>
                       validate_age rt (body_age bd) = None \<or>
                       validate_email rt k (body_email bd) = None
               then 500
               else (case storage ev of
                       Some x \<Rightarrow> if x = DuplicateKey then 400 else 500
                     | None \<Rightarrow>
                         if newId ev \<in> set (map doc_id (coll k w)) \<or>
                            the (validate_email rt k (body_email bd)) \<in> set (map email (coll k w))
                         then 400 else 201)))"
proof -
  obtain r w1 where c: "connectToDatabase (connect ev) w = (r, w1)"
    by (cases "connectToDatabase (connect ev) w")
  have same: "coll k w1 = coll k w" using coll_connect [of k "connect ev" w] c by simp
  have code: "(code e = Some 11000) = (e = DuplicateKey)" for e by (cases e) simp_all
  show ?thesis
  proof (cases r)
    case (Inl e)
    then show ?thesis using c by (simp add: POST_def POST_try_def POST_catch_def code)
  next
    case (Inr h)
    then show ?thesis using c same
      by (auto simp: POST_def POST_try_def POST_catch_def save_def Let_def code
          split: option.splits)
  qed
qed

lemma GET_status:
  "status (fst (GET rt k ev i w)) =
     (case fst (connectToDatabase (connect ev) w) of
        Inl e \<Rightarrow> 400
      | Inr h \<Rightarrow>
          (case castObjectId rt i of
             None \<Rightarrow> 400
           | Some j \<Rightarrow>
               (case storage ev of
                  Some x \<Rightarrow> 400
                | None \<Rightarrow>
                    (case find (\<lambda>d. doc_id d = j) (coll k w) of
                       None \<Rightarrow> 404
                     | Some d \<Rightarrow> 200))))"
proof -
  obtain r w1 where c: "connectToDatabase (connect ev) w = (r, w1)"
    by (cases "connectToDatabase (connect ev) w")
  have same: "coll k w1 = coll k w" using coll_connect [of k "connect ev" w] c by simp
  show ?thesis using c same
    by (cases r)
      (simp_all add: GET_def GET_try_def findById_def not_found_def ok_def
        split: option.splits)
qed

lemma DELETE_status:
  "status (fst (DELETE rt k ev i w)) =
     (case fst (connectToDatabase (connect ev) w) of
        Inl e \<Rightarrow> 500
      | Inr h \<Rightarrow>
          (case castObjectId rt i of
             None \<Rightarrow> 500
           | Some j \<Rightarrow>
               (case storage ev of
                  Some x \<Rightarrow> 500
                | None \<Rightarrow>
                    (case find (\<lambda>d. doc_id d = j) (coll k w) of
                       None \<Rightarrow> 404
                     | Some d \<Rightarrow> 200))))"
proof -
  obtain r w1 where c: "connectToDatabase (connect ev) w = (r, w1)"
    by (cases "connectToDatabase (connect ev) w")
  have same: "coll k w1 = coll k w" using coll_connect [of k "connect ev" w] c by simp
  show ?thesis using c same
    by (cases r)
      (simp_all add: DELETE_def DELETE_try_def findByIdAndDelete_def not_found_def Let_def
        split: option.splits)
qed

lemma PUT_status:
  "status (fst (PUT rt k ev i b w)) =
     (case fst (connectToDatabase (connect ev) w) of
        Inl e \<Rightarrow> 400
      | Inr h \<Rightarrow>
          (case b of
             None \<Rightarrow> 400
           | Some bd \<Rightarrow>
               (case fst (findByIdAndUpdate rt k ev i bd
                            (snd (connectToDatabase (connect ev) w))) of
                  Inl e \<Rightarrow> 400
                | Inr None \<Rightarrow> 404
                | Inr (Some d) \<Rightarrow> 200)))"
  by (cases "connectToDatabase (connect ev) w")
    (simp add: PUT_def PUT_try_def not_found_def ok_def
      split: sum.splits option.splits prod.splits)

lemma update_malformed_id:
  "castObjectId rt i = None \<Longrightarrow> fst (findByIdAndUpdate rt k ev i bd w) = Inl CastError"
  by (simp add: findByIdAndUpdate_def)

lemma update_storage_failure:
  assumes "storage ev = Some x"
  shows "\<exists>e. fst (findByIdAndUpdate rt k ev i bd w) = Inl e"
  using assms
  by (simp add: findByIdAndUpdate_def other_update_def update_one_def Let_def
      split: option.splits update.splits)

lemma update_one_plain:
  "update_one k ev j (\<lambda>d. Inr (apply_update n a e (now ev) d)) w =
     (case storage ev of
        Some x \<Rightarrow> (Inl x, record_event (DbWrite k) w)
      | None \<Rightarrow>
          (case find (\<lambda>d. doc_id d = j) (coll k w) of
             None \<Rightarrow> (Inr None, record_event (DbWrite k) w)
           | Some d \<Rightarrow>
               if list_ex (\<lambda>x. doc_id x \<noteq> j \<and>
                              email x = (case e of None \<Rightarrow> email d | Some y \<Rightarrow> y))
                    (coll k w)
               then (Inl DuplicateKey, record_event (DbWrite k) w)
               else (Inr (Some (apply_update n a e (now ev) d)),
                     set_coll k
                       (map (\<lambda>x. if doc_id x = j then apply_update n a e (now ev) d else x)
                          (coll k w))
                       (record_event (DbWrite k) w))))"
proof (cases "storage ev")
  case (Some x)
  then show ?thesis by (simp add: update_one_def Let_def)
next
  case None
  show ?thesis
  proof (cases "find (\<lambda>d. doc_id d = j) (coll k w)")
    case N: None
    then show ?thesis using None by (simp add: update_one_def Let_def)
  next
    case (Some d)
    have j: "doc_id d = j" using Some by (auto dest: find_SomeD)
    have i: "doc_id (apply_update n a e (now ev) d) = j"
      using j by (simp add: apply_update_def split: option.splits)
    show ?thesis using None Some i
      by (simp add: update_one_def Let_def email_apply_update)
  qed
qed

lemma update_plain_fields:
  assumes "castObjectId rt i = Some j" and "read_update bd = Fields fs"
  shows "fst (findByIdAndUpdate rt k ev i bd w) =
     (case (supplied (validate_name rt) (body_name fs),
            supplied (validate_age rt) (body_age fs),
            supplied (validate_email rt k) (body_email fs)) of
        (Some n, Some a, Some e) \<Rightarrow>
          (case storage ev of
             Some x \<Rightarrow> Inl x
           | None \<Rightarrow>
               (case find (\<lambda>d. doc_id d = j) (coll k w) of
                  None \<Rightarrow> Inr None
                | Some d \<Rightarrow>
                    if list_ex (\<lambda>x. doc_id x \<noteq> j \<and>
                                   email x = (case e of None \<Rightarrow> email d | Some y \<Rightarrow> y))
                         (coll k w)
                    then Inl DuplicateKey
                    else Inr (Some (apply_update n a e (now ev) d))))
      | _ \<Rightarrow> Inl ValidationError)"
  using assms
  by (simp add: findByIdAndUpdate_def update_one_plain Let_def split: option.splits)


lemma PUT_status_by_input:
  "status (fst (PUT rt k ev i b w)) =
     (case fst (connectToDatabase (connect ev) w) of
        Inl e \<Rightarrow> 400
      | Inr h \<Rightarrow>
          (case b of
             None \<Rightarrow> 400
           | Some bd \<Rightarrow>
               (case castObjectId rt i of
                  None \<Rightarrow> 400
                | Some j \<Rightarrow>
                    (case read_update bd of
                       Fields fs \<Rightarrow>
                         if supplied (validate_name rt) (body_name fs) = None \<or>
                            supplied (validate_age rt) (body_age fs) = None \<or>
                            supplied (validate_email rt k) (body_email fs) = None
                         then 400
                         else (case storage ev of
                                 Some x \<Rightarrow> 400
                               | None \<Rightarrow>
                                   (case find (\<lambda>d. doc_id d = j) (coll k w) of
                                      None \<Rightarrow> 404
                                    | Some d \<Rightarrow>
                                        if list_ex (\<lambda>x. doc_id x \<noteq> j \<and>
                                             email x =
                                               (case supplied (validate_email rt k) (body_email fs) of
                                                  Some (Some y) \<Rightarrow> y
                                                | _ \<Rightarrow> email d))
                                             (coll k w)
                                        then 400 else 200))
                     | _ \<Rightarrow>
                         (case fst (findByIdAndUpdate rt k ev i bd
                                      (snd (connectToDatabase (connect ev) w))) of
                            Inl e \<Rightarrow> 400
                          | Inr None \<Rightarrow> 404
                          | Inr (Some d) \<Rightarrow> 200)))))"
proof -
  let ?w1 = "snd (connectToDatabase (connect ev) w)"
  have same: "coll k ?w1 = coll k w" by (rule coll_connect)
  have plain: "(case fst (findByIdAndUpdate rt k ev i bd ?w1) of
                  Inl e \<Rightarrow> 400 | Inr None \<Rightarrow> 404 | Inr (Some d) \<Rightarrow> 200) =
      (if supplied (validate_name rt) (body_name fs) = None \<or>
          supplied (validate_age rt) (body_age fs) = None \<or>
          supplied (validate_email rt k) (body_email fs) = None
       then 400
       else (case storage ev of
               Some x \<Rightarrow> 400
             | None \<Rightarrow>
                 (case find (\<lambda>d. doc_id d = j) (coll k w) of
                    None \<Rightarrow> 404
                  | Some d \<Rightarrow>
                      if list_ex (\<lambda>x. doc_id x \<noteq> j \<and>
                           email x =
                             (case supplied (validate_email rt k) (body_email fs) of
                                Some (Some y) \<Rightarrow> y
                              | _ \<Rightarrow> email d))
                           (coll k w)
                      then 400 else (200::nat))))"
    if "castObjectId rt i = Some j" and "read_update bd = Fields fs" for bd j fs
    unfolding update_plain_fields [OF that] same
    by (simp split: option.splits)
  have bad: "(case fst (findByIdAndUpdate rt k ev i bd ?w1) of
                  Inl e \<Rightarrow> 400 | Inr None \<Rightarrow> 404 | Inr (Some d) \<Rightarrow> 200) = (400::nat)"
    if "castObjectId rt i = None" for bd
    by (simp add: update_malformed_id [OF that])
  show ?thesis
  proof (cases "fst (connectToDatabase (connect ev) w)")
    case (Inl e)
    then show ?thesis unfolding PUT_status by simp
  next
    case (Inr h)
    show ?thesis
    proof (cases b)
      case None
      then show ?thesis unfolding PUT_status using Inr by simp
    next
      case (Some bd)
      show ?thesis
      proof (cases "castObjectId rt i")
        case None
        then show ?thesis unfolding PUT_status using Inr Some by (simp add: bad)
      next
        case j: (Some j)
        show ?thesis
        proof (cases "read_update bd")
          case (Fields fs)
          show ?thesis unfolding PUT_status using Inr Some j Fields
            by (simp add: plain [OF j Fields])
        qed (simp_all add: PUT_status Inr Some j)
      qed
    qed
  qed
qed

subsection \<open>A query without syntax characters\<close>

text \<open>
  On a pattern made of literal atoms the matcher decides containment up to case, and a
  query free of syntax characters is such a pattern: there the search is the substring
  search of the specification, whatever the runtime.
\<close>

lemma match_here_literal:
  "match_here (map Lit q) s \<longleftrightarrow> (\<exists>suf. toLowerCase s = toLowerCase q @ suf)"
proof (induction q arbitrary: s)
  case Nil
  then show ?case by (simp add: toLowerCase_def)
next
  case (Cons c q)
  show ?case
  proof (cases s)
    case Nil
    then show ?thesis by (simp add: toLowerCase_def)
  next
    case (Cons d t)
    have "match_here (map Lit (c # q)) (d # t) \<longleftrightarrow>
        lower_char c = lower_char d \<and> (\<exists>suf. toLowerCase t = toLowerCase q @ suf)"
      using Cons.IH [of t] by simp
    then show ?thesis using Cons by (auto simp: toLowerCase_def)
  qed
qed

lemma regex_search_splits:
  "regex_search as s \<longleftrightarrow> (\<exists>pre rest. s = pre @ rest \<and> match_here as rest)"
proof (induction s)
  case Nil
  then show ?case by simp
next
  case (Cons d s)
  show ?case
  proof
    assume "regex_search as (d # s)"
    then consider "match_here as (d # s)" | "regex_search as s" by auto
    then show "\<exists>pre rest. d # s = pre @ rest \<and> match_here as rest"
    proof cases
      case 1
      then show ?thesis by (intro exI [of _ "[]"] exI [of _ "d # s"]) simp
    next
      case 2
      then obtain pre rest where "s = pre @ rest" "match_here as rest" using Cons.IH by auto
      then show ?thesis by (intro exI [of _ "d # pre"] exI [of _ rest]) simp
    qed
  next
    assume "\<exists>pre rest. d # s = pre @ rest \<and> match_here as rest"
    then obtain pre rest where pr: "d # s = pre @ rest" "match_here as rest" by auto
    show "regex_search as (d # s)"
    proof (cases pre)
      case Nil
      then have "rest = d # s" using pr(1) by simp
      then show ?thesis using pr(2) by simp
    next
      case (Cons x pre')
      then have "s = pre' @ rest" using pr(1) by simp
      then have "regex_search as s" using pr(2) Cons.IH by auto
      then show ?thesis by simp
    qed
  qed
qed

lemma regex_search_literal: "regex_search (map Lit q) s \<longleftrightarrow> contains_ci q s"
proof
  assume "regex_search (map Lit q) s"
  then obtain pre rest suf where "s = pre @ rest" "toLowerCase rest = toLowerCase q @ suf"
    by (auto simp: regex_search_splits match_here_literal)
  then have "toLowerCase s = toLowerCase pre @ toLowerCase q @ suf"
    by (simp add: toLowerCase_def)
  then show "contains_ci q s" unfolding contains_ci_def by blast
next
  assume "contains_ci q s"
  then obtain pre suf where "toLowerCase s = pre @ toLowerCase q @ suf"
    unfolding contains_ci_def by blast
  then have "map lower_char s = pre @ (toLowerCase q @ suf)" by (simp add: toLowerCase_def)
  then obtain s1 s2 where s: "s = s1 @ s2" "toLowerCase q @ suf = map lower_char s2"
    unfolding map_eq_append_conv by blast
  then have "toLowerCase s2 = toLowerCase q @ suf" by (simp add: toLowerCase_def)
  then have "match_here (map Lit q) s2" unfolding match_here_literal by blast
  then show "regex_search (map Lit q) s" using s(1) regex_search_splits by blast
qed

lemma RegExp_i_plain:
  assumes "list_all (\<lambda>c. \<not> syntax_character c) q"
  shows "RegExp_i rt q = Some (contains_ci q)"
proof -
  have "\<forall>c\<in>set q. c \<noteq> CHR ''.''" using assms by (auto simp: list_all_iff syntax_character_def)
  then have m: "map atom_of q = map Lit q" by simp
  have "regex_search (map atom_of q) = contains_ci q"
    by (rule ext) (simp only: m regex_search_literal)
  moreover have "list_all (\<lambda>c. c = CHR ''.'' \<or> \<not> syntax_character c) q"
    using assms by (auto simp: list_all_iff)
  ultimately show ?thesis by (simp add: RegExp_i_def)
qed

lemma search_plain_query:
  assumes "trim q \<noteq> []" and "list_all (\<lambda>c. \<not> syntax_character c) (trim q)"
    and "connectToDatabase (connect ev) w = (Inr h, w1)" and "storage ev = None"
  shows "fst (search_GET rt ev (Some q) w) =
           ok (Docs (map select_name_age_email
             (take 50 (sort_key name
                (filter (\<lambda>d. contains_ci (trim q) (name d) \<or> contains_ci (trim q) (email d))
                   (students w))))))"
proof -
  have "students w1 = students w"
    using students_connect [of "connect ev" w] assms(3) by simp
  then show ?thesis using assms
    by (simp add: search_GET_def search_try_def RegExp_i_plain)
qed

subsection \<open>The two example databases\<close>

lemma with_ann_eq:
  "with_ann =
     \<lparr>cached = \<lparr>conn = Some 1, promise = Some (Inr 1)\<rparr>,
      students = [\<lparr>doc_id = 1, name = ''Ann'', age = 20, email = ''ann@x.com'',
                   createdAt = 100, updatedAt = 100\<rparr>],
      instructors = [],
      trace = [MongooseConnect, Validate Student, DbWrite Student]\<rparr>"
  by (simp add: with_ann_def handler_defs example_defs)

lemma with_eve_eq:
  "with_eve =
     \<lparr>cached = \<lparr>conn = Some 1, promise = Some (Inr 1)\<rparr>,
      students = [\<lparr>doc_id = 7, name = ''Eve'', age = 31, email = ''john@gmailxcom.org'',
                   createdAt = 100, updatedAt = 100\<rparr>],
      instructors = [],
      trace = [MongooseConnect, Validate Student, DbWrite Student]\<rparr>"
  by (simp add: with_eve_def handler_defs example_defs)

lemma reachable_with_ann: "reachable strict_runtime with_ann"
  unfolding with_ann_def by (rule reachable.step [OF reachable.start])

section \<open>The connection manager: C7, C8\<close>

text \<open>
  C7. When the connection attempt a call waits for fails with \<open>e\<close> (the attempt it
  starts itself, or one an earlier caller left pending), the call throws \<open>e\<close> to its
  caller, leaves the pending-operation marker \<^verbatim>\<open>cached.promise\<close> cleared and caches no
  handle; the next call, whatever its attempt does, starts a fresh attempt and returns
  what that attempt gives.
\<close>

theorem C7_failure_clears_promise:
  assumes "conn (cached w) = None"
    and "(case promise (cached w) of None \<Rightarrow> c | Some p \<Rightarrow> p) = Inl e"
  shows "fst (connectToDatabase c w) = Inl e \<and>
         promise (cached (snd (connectToDatabase c w))) = None \<and>
         conn (cached (snd (connectToDatabase c w))) = None \<and>
         fst (connectToDatabase c' (snd (connectToDatabase c w))) = c' \<and>
         trace (snd (connectToDatabase c' (snd (connectToDatabase c w)))) =
           trace (snd (connectToDatabase c w)) @ [MongooseConnect]"
  using assms
  by (cases c') (auto simp: connectToDatabase_def split: option.splits sum.splits)

text \<open>From the empty cache: the attempt fails, and the next call connects.\<close>

theorem C7_failure_clears_promise_witness:
  "fst (connectToDatabase (Inl ConnectionFailed) initial_world) = Inl ConnectionFailed \<and>
   promise (cached (snd (connectToDatabase (Inl ConnectionFailed) initial_world))) = None \<and>
   conn (cached (snd (connectToDatabase (Inl ConnectionFailed) initial_world))) = None \<and>
   fst (connectToDatabase (Inr 1)
          (snd (connectToDatabase (Inl ConnectionFailed) initial_world))) = Inr 1 \<and>
   trace (snd (connectToDatabase (Inr 1)
          (snd (connectToDatabase (Inl ConnectionFailed) initial_world)))) =
     trace (snd (connectToDatabase (Inl ConnectionFailed) initial_world)) @ [MongooseConnect]"
proof -
  have h1: "conn (cached initial_world) = None"
    by (simp add: initial_world_def)
  have h2: "(case promise (cached initial_world) of
               None \<Rightarrow> Inl ConnectionFailed | Some p \<Rightarrow> p) = Inl ConnectionFailed"
    by (simp add: initial_world_def)
  show ?thesis by (rule C7_failure_clears_promise [OF h1 h2])
qed

text \<open>
  C8. Once a call has succeeded with the handle \<open>h\<close>, the handle is cached, and after
  any sequence of requests a further call returns \<open>h\<close> and leaves the state, and with it
  the trace of connection attempts, as it found it, whatever a new attempt would do.
\<close>

theorem C8_success_is_cached:
  assumes "connectToDatabase c w = (Inr h, w1)"
  shows "conn (cached w1) = Some h \<and>
         connectToDatabase c' (run rt rs w1) = (Inr h, run rt rs w1)"
proof -
  have h: "conn (cached w1) = Some h" using assms by (rule connect_Inr_conn)
  then have "cached (run rt rs w1) = cached w1" by (rule run_keeps_connection)
  with h have "conn (cached (run rt rs w1)) = Some h" by simp
  then show ?thesis using h by (simp add: connect_when_cached)
qed

text \<open>After a first success the database goes away; two requests later the cached
  handle is still what a call returns.\<close>

theorem C8_success_is_cached_witness:
  "conn (cached (snd (connectToDatabase (Inr 1) initial_world))) = Some 1 \<and>
   connectToDatabase (Inl ConnectionFailed)
     (run strict_runtime [(offline, List Student), (offline, Create Instructor None)]
        (snd (connectToDatabase (Inr 1) initial_world))) =
   (Inr 1,
    run strict_runtime [(offline, List Student), (offline, Create Instructor None)]
      (snd (connectToDatabase (Inr 1) initial_world)))"
proof -
  have h: "connectToDatabase (Inr 1) initial_world =
      (Inr 1, snd (connectToDatabase (Inr 1) initial_world))"
    by (simp add: connectToDatabase_def initial_world_def)
  show ?thesis by (rule C8_success_is_cached [OF h])
qed

section \<open>Search: C6, C2, C1\<close>

text \<open>
  C6. For a query that is absent, empty or white space only, the search answers 200
  with the empty list and returns the state unchanged: the cache and the trace are as
  before, so no connection was attempted and nothing was read.
\<close>

theorem C6_empty_query:
  "map_option trim q = None \<or> map_option trim q = Some [] \<Longrightarrow>
   search_GET rt ev q w = (ok (Docs []), w)"
  by (auto simp: search_GET_def split: option.splits)

theorem C6_empty_query_witness:
  "map_option trim (Some ''   '') = Some [] \<and>
   search_GET strict_runtime offline (Some ''   '') with_ann = (ok (Docs []), with_ann)"
proof -
  have h: "map_option trim (Some ''   '') = Some []"
    by (simp add: trim_def is_ws_def)
  then have "search_GET strict_runtime offline (Some ''   '') with_ann = (ok (Docs []), with_ann)"
    by (intro C6_empty_query disjI2)
  with h show ?thesis by (rule conjI)
qed




text \<open>
  C1 holds of what the handler is written to do (its comment: a case-insensitive
  partial match on name or email) and fails on what it does: the query is handed to
  \<^verbatim>\<open>new RegExp\<close> unescaped, so its syntax characters are read as syntax. The route's own
  example query \<^verbatim>\<open>john@gmail.com\<close> has a dot, which matches any character: the search
  returns a student whose name and email do not contain the query.
\<close>

theorem C1_query_read_as_pattern:
  "fst (search_GET strict_runtime (online 200 8) (Some ''john@gmail.com'') with_eve) =
     \<lparr>status = 200,
      payload = Docs [[(''_id'', OId 7), (''name'', OStr ''Eve''), (''age'', ONum 31),
                       (''email'', OStr ''john@gmailxcom.org'')]]\<rparr> \<and>
   \<not> contains_ci ''john@gmail.com'' ''Eve'' \<and>
   \<not> contains_ci ''john@gmail.com'' ''john@gmailxcom.org''"
  by (simp add: with_eve_eq handler_defs example_defs regex_search_literal [symmetric])

section \<open>The stored emails: C3\<close>

text \<open>
  C3 holds of what the update handlers are written to do (the comment of PUT:
  \<^verbatim>\<open>runValidators: true\<close> enforces the schema rules, e.g. the email format) and fails on
  what they do: the body of a PUT is handed to \<^verbatim>\<open>findByIdAndUpdate\<close> as it came, and the
  update validators run on \<^verbatim>\<open>$set\<close>, \<^verbatim>\<open>$unset\<close>, \<^verbatim>\<open>$push\<close>, \<^verbatim>\<open>$addToSet\<close>, \<^verbatim>\<open>$pull\<close> and
  \<^verbatim>\<open>$pullAll\<close> only. The body \<^verbatim>\<open>{ "$min": { "email": "!" } }\<close> is cast and applied without
  validation: the student created above, stored with the email \<^verbatim>\<open>ann@x.com\<close>, is answered
  200 and stored with the email \<^verbatim>\<open>!\<close>, which the pattern does not match. The state is
  one the application reaches from the empty database.
\<close>

theorem C3_min_update_skips_validators:
  "fst (PUT strict_runtime Student (online 200 2) ''000000000000000000000001''
          (Some min_email) with_ann) =
     ok (Doc (toJSON \<lparr>doc_id = 1, name = ''Ann'', age = 20, email = ''!'',
                       createdAt = 100, updatedAt = 200\<rparr>)) \<and>
   map email (students (snd (serve strict_runtime (online 200 2)
      (Update Student ''000000000000000000000001'' (Some min_email)) with_ann))) = [''!''] \<and>
   reachable strict_runtime (snd (serve strict_runtime (online 200 2)
      (Update Student ''000000000000000000000001'' (Some min_email)) with_ann)) \<and>
   \<not> rx_match email_pattern ''!''"
proof -
  have "reachable strict_runtime (snd (serve strict_runtime (online 200 2)
      (Update Student ''000000000000000000000001'' (Some min_email)) with_ann))"
    by (rule reachable.step [OF reachable_with_ann])
  moreover have "fst (PUT strict_runtime Student (online 200 2) ''000000000000000000000001''
          (Some min_email) with_ann) =
     ok (Doc (toJSON \<lparr>doc_id = 1, name = ''Ann'', age = 20, email = ''!'',
                       createdAt = 100, updatedAt = 200\<rparr>))"
    by (simp add: with_ann_eq handler_defs example_defs)
  moreover have "map email (students (snd (serve strict_runtime (online 200 2)
      (Update Student ''000000000000000000000001'' (Some min_email)) with_ann))) = [''!'']"
    by (simp add: with_ann_eq handler_defs example_defs)
  moreover have "\<not> rx_match email_pattern ''!''"
    by (simp add: handler_defs example_defs)
  ultimately show ?thesis by simp
qed

section \<open>Statuses: C4\<close>

text \<open>
  C4, as the specification has it, fails: the status of a failure depends on the route
  that meets it. A validation failure in POST is answered 500, not 400; a failed
  connection in GET by id is answered 400, not 500; a malformed id in DELETE is
  answered 500, not 400.
\<close>

theorem C4_status_depends_on_route:
  "fst (POST_try strict_runtime Student (online 100 1)
          (Some (form_body ''Ann'' (- 1) ''ann@x.com'')) initial_world) = Inl ValidationError \<and>
   status (fst (POST strict_runtime Student (online 100 1)
          (Some (form_body ''Ann'' (- 1) ''ann@x.com'')) initial_world)) \<noteq>
     spec_status ValidationError \<and>
   fst (GET_try strict_runtime Student offline ''000000000000000000000001'' initial_world) =
     Inl ConnectionFailed \<and>
   status (fst (GET strict_runtime Student offline ''000000000000000000000001'' initial_world)) \<noteq>
     spec_status ConnectionFailed \<and>
   fst (DELETE_try strict_runtime Student (online 100 1) ''xyz'' initial_world) = Inl CastError \<and>
   status (fst (DELETE strict_runtime Student (online 100 1) ''xyz'' initial_world)) \<noteq>
     spec_status CastError"
  by (simp add: handler_defs example_defs)

text \<open>
  C4, amended. Each route has its own map from what a request meets to a status; the
  status of every answer is given here from the request and the state.

  \<^item> The list and the search (of a query that is not blank): 500 when the connection
    fails, when the pattern is refused and when the query fails in the database;
    200 otherwise.
  \<^item> POST: when the connection fails, 500 (400 should the error carry the code 11000),
    before the body is read. Then 500 for a body that is not JSON; 400 for a field
    that is missing or falsy; 500 for a field the schema rejects; for a write that
    fails in the database 400 when the error is the duplicate key and 500 otherwise;
    400 for an id or an email that the collection has already; 201 otherwise.
  \<^item> GET by id: 400 when the connection fails, when the id is malformed and when the
    query fails in the database; 404 when no document has the id; 200 otherwise.
  \<^item> DELETE: 500 in these three cases; 404 when no document has the id; 200 otherwise.
  \<^item> PUT: 400 when the connection fails, for a body that is not JSON and for a
    malformed id. For a body of plain fields: 400 when a supplied field is rejected
    by the schema and when the write fails in the database, 404 when no document has
    the id, 400 when another document has the new email, 200 otherwise. For any other
    body: 400 when the update throws, 404 when it finds no document, 200 otherwise.
\<close>

theorem C4_status_by_route:
  "status (fst (list_GET k ev w)) =
     (case fst (connectToDatabase (connect ev) w) of
        Inl e \<Rightarrow> 500
      | Inr h \<Rightarrow> (case storage ev of Some x \<Rightarrow> 500 | None \<Rightarrow> 200)) \<and>
   (trim q \<noteq> [] \<longrightarrow>
    status (fst (search_GET rt ev (Some q) w)) =
      (case fst (connectToDatabase (connect ev) w) of
         Inl e \<Rightarrow> 500
       | Inr h \<Rightarrow>
           (case RegExp_i rt (trim q) of
              None \<Rightarrow> 500
            | Some regex \<Rightarrow> (case storage ev of Some x \<Rightarrow> 500 | None \<Rightarrow> 200)))) \<and>
   status (fst (POST rt k ev b w)) =
     (case fst (connectToDatabase (connect ev) w) of
        Inl e \<Rightarrow> if e = DuplicateKey then 400 else 500
      | Inr h \<Rightarrow>
          (case b of
             None \<Rightarrow> 500
           | Some bd \<Rightarrow>
               if \<not> (truthy (body_name bd) \<and> truthy (body_age bd) \<and> truthy (body_email bd))
               then 400
               else if validate_name rt (body_name bd) = None \<or>
                       validate_age rt (body_age bd) = None \<or>
                       validate_email rt k (body_email bd) = None
               then 500
               else (case storage ev of
                       Some x \<Rightarrow> if x = DuplicateKey then 400 else 500
                     | None \<Rightarrow>
                         if newId ev \<in> set (map doc_id (coll k w)) \<or>
                            the (validate_email rt k (body_email bd)) \<in> set (map email (coll k w))
                         then 400 else 201))) \<and>
   status (fst (GET rt k ev i w)) =
     (case fst (connectToDatabase (connect ev) w) of
        Inl e \<Rightarrow> 400
      | Inr h \<Rightarrow>
          (case castObjectId rt i of
             None \<Rightarrow> 400
           | Some j \<Rightarrow>
               (case storage ev of
                  Some x \<Rightarrow> 400
                | None \<Rightarrow>
                    (case find (\<lambda>d. doc_id d = j) (coll k w) of
                       None \<Rightarrow> 404
                     | Some d \<Rightarrow> 200)))) \<and>
   status (fst (DELETE rt k ev i w)) =
     (case fst (connectToDatabase (connect ev) w) of
        Inl e \<Rightarrow> 500
      | Inr h \<Rightarrow>
          (case castObjectId rt i of
             None \<Rightarrow> 500
           | Some j \<Rightarrow>
               (case storage ev of
                  Some x \<Rightarrow> 500
                | None \<Rightarrow>
                    (case find (\<lambda>d. doc_id d = j) (coll k w) of
                       None \<Rightarrow> 404
                     | Some d \<Rightarrow> 200)))) \<and>
   status (fst (PUT rt k ev i u w)) =
     (case fst (connectToDatabase (connect ev) w) of
        Inl e \<Rightarrow> 400
      | Inr h \<Rightarrow>
          (case u of
             None \<Rightarrow> 400
           | Some bd \<Rightarrow>
               (case castObjectId rt i of
                  None \<Rightarrow> 400
                | Some j \<Rightarrow>
                    (case read_update bd of
                       Fields fs \<Rightarrow>
                         if supplied (validate_name rt) (body_name fs) = None \<or>
                            supplied (validate_age rt) (body_age fs) = None \<or>
                            supplied (validate_email rt k) (body_email fs) = None
                         then 400
                         else (case storage ev of
                                 Some x \<Rightarrow> 400
                               | None \<Rightarrow>
                                   (case find (\<lambda>d. doc_id d = j) (coll k w) of
                                      None \<Rightarrow> 404
                                    | Some d \<Rightarrow>
                                        if list_ex (\<lambda>x. doc_id x \<noteq> j \<and>
                                             email x =
                                               (case supplied (validate_email rt k) (body_email fs) of
                                                  Some (Some y) \<Rightarrow> y
                                                | _ \<Rightarrow> email d))
                                             (coll k w)
                                        then 400 else 200))
                     | _ \<Rightarrow>
                         (case fst (findByIdAndUpdate rt k ev i bd
                                      (snd (connectToDatabase (connect ev) w))) of
                            Inl e \<Rightarrow> 400
                          | Inr None \<Rightarrow> 404
                          | Inr (Some d) \<Rightarrow> 200)))))"
  by (intro conjI impI list_status search_status POST_status GET_status DELETE_status
      PUT_status_by_input)

text \<open>
  With one student stored. While the database answers: a second student with the
  email of the first is answered 400, a student of age 0 is answered 400, a student of
  age -1 is answered 500, and an id that no student has is answered 404 by GET, PUT
  and DELETE. While the queries fail in the database: the list and the search are
  answered 500, the lookup by id 400, the deletion 500, the update 400.
\<close>

theorem C4_status_by_route_witness:
  "trim ''ann'' \<noteq> [] \<and>
   status (fst (POST strict_runtime Student (online 200 2)
          (Some (form_body ''Bob'' 30 ''ANN@x.com'')) with_ann)) = 400 \<and>
   status (fst (POST strict_runtime Student (online 200 2)
          (Some (form_body ''Bob'' 0 ''bob@x.com'')) with_ann)) = 400 \<and>
   status (fst (POST strict_runtime Student (online 200 2)
          (Some (form_body ''Bob'' (- 1) ''bob@x.com'')) with_ann)) = 500 \<and>
   status (fst (GET strict_runtime Student (online 200 2) ''000000000000000000000002''
          with_ann)) = 404 \<and>
   status (fst (PUT strict_runtime Student (online 200 2) ''000000000000000000000002''
          (Some age_30) with_ann)) = 404 \<and>
   status (fst (DELETE strict_runtime Student (online 200 2) ''000000000000000000000002''
          with_ann)) = 404 \<and>
   status (fst (list_GET Student (failing 200 2) with_ann)) = 500 \<and>
   status (fst (search_GET strict_runtime (failing 200 2) (Some ''ann'') with_ann)) = 500 \<and>
   status (fst (GET strict_runtime Student (failing 200 2) ''000000000000000000000001''
          with_ann)) = 400 \<and>
   status (fst (DELETE strict_runtime Student (failing 200 2) ''000000000000000000000001''
          with_ann)) = 500 \<and>
   status (fst (PUT strict_runtime Student (failing 200 2) ''000000000000000000000001''
          (Some age_30) with_ann)) = 400"
proof -
  have q: "trim ''ann'' \<noteq> []" by (simp add: trim_def is_ws_def)
  note on = C4_status_by_route [where rt = strict_runtime and k = Student
      and ev = "online 200 2" and w = with_ann and q = "''ann''"
      and i = "''000000000000000000000002''" and u = "Some age_30"]
  note off = C4_status_by_route [where rt = strict_runtime and k = Student
      and ev = "failing 200 2" and w = with_ann and q = "''ann''"
      and i = "''000000000000000000000001''" and u = "Some age_30"
      and b = "Some (form_body ''Bob'' 30 ''ANN@x.com'')"]
  show ?thesis
    using q
      on [where b = "Some (form_body ''Bob'' 30 ''ANN@x.com'')"]
      on [where b = "Some (form_body ''Bob'' 0 ''bob@x.com'')"]
      on [where b = "Some (form_body ''Bob'' (- 1) ''bob@x.com'')"]
      off
    by (simp add: with_ann_eq handler_defs example_defs)
qed

section \<open>Creating and updating: C5, C10, C9\<close>

text \<open>
  C5, as the specification has it, fails: the schema asks for a Number that is at least
  1, not for an integer. A student of age 2.5 is created and stored.
\<close>

theorem C5_fractional_age_accepted:
  "status (fst (POST strict_runtime Student (online 100 1)
      (Some (form_body ''Ann'' (5 / 2) ''ann@x.com'')) initial_world)) = 201 \<and>
   students (snd (POST strict_runtime Student (online 100 1)
      (Some (form_body ''Ann'' (5 / 2) ''ann@x.com'')) initial_world)) =
     [\<lparr>doc_id = 1, name = ''Ann'', age = 5 / 2, email = ''ann@x.com'',
       createdAt = 100, updatedAt = 100\<rparr>]"
  by (simp add: handler_defs example_defs)

text \<open>
  C5, amended. A create whose age is missing, is not cast to a number, or is a number
  below 1 stores nothing, in either collection. With the connection obtained it is
  refused with 400 and the missing-field message when a field is falsy (age 0 among
  them), and otherwise by the validation error of \<^verbatim>\<open>save\<close>, which POST answers with
  500. (A number that is at least 1 passes, integer or not.)
\<close>

theorem C5_age_below_one_rejected:
  assumes "\<forall>r. castNumber rt (body_age bd) = Some r \<longrightarrow> r < 1"
  shows "students (snd (POST rt k ev (Some bd) w)) = students w \<and>
         instructors (snd (POST rt k ev (Some bd) w)) = instructors w \<and>
         (case fst (connectToDatabase (connect ev) w) of
            Inl e \<Rightarrow> fst (POST rt k ev (Some bd) w) = POST_catch k e
          | Inr h \<Rightarrow>
              if truthy (body_name bd) \<and> truthy (body_age bd) \<and> truthy (body_email bd)
              then fst (POST_try rt k ev (Some bd) w) = Inl ValidationError \<and>
                   fst (POST rt k ev (Some bd) w) =
                     \<lparr>status = 500, payload = Err (''Failed to create '' @ noun k)\<rparr>
              else fst (POST rt k ev (Some bd) w) =
                     \<lparr>status = 400, payload = Err ''All fields are required''\<rparr>)"
proof -
  obtain r w1 where c: "connectToDatabase (connect ev) w = (r, w1)"
    by (cases "connectToDatabase (connect ev) w")
  have w1: "students w1 = students w" "instructors w1 = instructors w"
    using students_connect [of "connect ev" w] instructors_connect [of "connect ev" w] c
    by simp_all
  show ?thesis
  proof (cases r)
    case (Inl e)
    then show ?thesis using c w1 by (simp add: POST_def POST_try_def)
  next
    case (Inr h)
    then show ?thesis using c w1 save_rejects_bad_age [OF assms]
      by (simp add: POST_def POST_try_def POST_catch_def record_event_def)
  qed
qed

text \<open>An instructor of age one half: a validation error, answered 500, nothing stored.\<close>

theorem C5_age_below_one_rejected_witness:
  "instructors (snd (POST strict_runtime Instructor (online 100 1)
      (Some (form_body ''Ann'' (1 / 2) ''ann@x.com'')) initial_world)) = instructors initial_world \<and>
   fst (POST strict_runtime Instructor (online 100 1)
      (Some (form_body ''Ann'' (1 / 2) ''ann@x.com'')) initial_world) =
     \<lparr>status = 500, payload = Err ''Failed to create instructor''\<rparr>"
proof -
  have h: "\<forall>r. castNumber strict_runtime (body_age (form_body ''Ann'' (1 / 2) ''ann@x.com'')) = Some r
             \<longrightarrow> r < 1"
    by (simp add: form_body_def)
  have c: "fst (connectToDatabase (connect (online 100 1)) initial_world) = Inr 1"
    by (simp add: connectToDatabase_def online_def initial_world_def)
  have t: "truthy (body_name (form_body ''Ann'' (1 / 2) ''ann@x.com'')) \<and>
           truthy (body_age (form_body ''Ann'' (1 / 2) ''ann@x.com'')) \<and>
           truthy (body_email (form_body ''Ann'' (1 / 2) ''ann@x.com''))"
    by (simp add: form_body_def)
  show ?thesis
    using C5_age_below_one_rejected [OF h, where k = Instructor and ev = "online 100 1"
        and w = initial_world] c t
    by simp
qed

text \<open>
  C10, as the specification has it, fails while the database is unreachable: the
  handler awaits the connection before it reads the body, so a create of age 0 is
  answered there by the \<^verbatim>\<open>catch\<close> block, with 500 and \<^verbatim>\<open>Failed to create student\<close>, not
  with 400 and the missing-field message.
\<close>

theorem C10_zero_age_without_connection:
  "body_age (form_body ''Ann'' 0 ''ann@x.com'') = Some (JNum 0) \<and>
   fst (POST strict_runtime Student offline
          (Some (form_body ''Ann'' 0 ''ann@x.com'')) initial_world) =
     \<lparr>status = 500, payload = Err ''Failed to create student''\<rparr>"
  by (simp add: handler_defs example_defs)

text \<open>
  C10, amended. A create whose body has age 0 never reaches the schema. With the
  connection obtained (the handler connects before it reads the body) the answer is 400
  with \<^verbatim>\<open>All fields are required\<close>, and the state is the one the connection step left;
  with the connection failed the answer is that of the \<^verbatim>\<open>catch\<close> block, the body unread.
  In every case both collections are unchanged and the trace grows by at most the
  connection attempt: no validation was run and no write was sent.
\<close>

theorem C10_zero_age_is_missing_field:
  assumes "body_age bd = Some (JNum 0)"
  shows "(case connectToDatabase (connect ev) w of
            (Inr h, w1) \<Rightarrow>
              POST rt k ev (Some bd) w =
                (\<lparr>status = 400, payload = Err ''All fields are required''\<rparr>, w1)
          | (Inl e, w1) \<Rightarrow>
              POST rt k ev (Some bd) w = (POST_catch k e, w1)) \<and>
         students (snd (POST rt k ev (Some bd) w)) = students w \<and>
         instructors (snd (POST rt k ev (Some bd) w)) = instructors w \<and>
         (trace (snd (POST rt k ev (Some bd) w)) = trace w \<or>
          trace (snd (POST rt k ev (Some bd) w)) = trace w @ [MongooseConnect])"
proof -
  obtain r w1 where c: "connectToDatabase (connect ev) w = (r, w1)"
    by (cases "connectToDatabase (connect ev) w")
  have p: "POST rt k ev (Some bd) w =
      (case r of Inr h \<Rightarrow> \<lparr>status = 400, payload = Err ''All fields are required''\<rparr>
               | Inl e \<Rightarrow> POST_catch k e, w1)"
    using assms c by (cases r) (simp_all add: POST_def POST_try_def)
  have w1: "w1 = snd (connectToDatabase (connect ev) w)" using c by simp
  show ?thesis using trace_connect [of "connect ev" w]
    by (cases r) (simp_all add: p c, simp_all add: w1)
qed

theorem C10_zero_age_is_missing_field_witness:
  "body_age (form_body ''Ann'' 0 ''ann@x.com'') = Some (JNum 0) \<and>
   fst (POST strict_runtime Student (online 100 1)
          (Some (form_body ''Ann'' 0 ''ann@x.com'')) initial_world) =
     \<lparr>status = 400, payload = Err ''All fields are required''\<rparr> \<and>
   students (snd (POST strict_runtime Student (online 100 1)
          (Some (form_body ''Ann'' 0 ''ann@x.com'')) initial_world)) = students initial_world \<and>
   trace (snd (POST strict_runtime Student (online 100 1)
          (Some (form_body ''Ann'' 0 ''ann@x.com'')) initial_world)) = [MongooseConnect]"
proof -
  have h: "body_age (form_body ''Ann'' 0 ''ann@x.com'') = Some (JNum 0)"
    by (simp add: form_body_def)
  have c: "connectToDatabase (connect (online 100 1)) initial_world =
      (Inr 1, \<lparr>cached = \<lparr>conn = Some 1, promise = Some (Inr 1)\<rparr>, students = [],
               instructors = [], trace = [MongooseConnect]\<rparr>)"
    by (simp add: connectToDatabase_def online_def initial_world_def)
  have p: "POST strict_runtime Student (online 100 1)
          (Some (form_body ''Ann'' 0 ''ann@x.com'')) initial_world =
      (\<lparr>status = 400, payload = Err ''All fields are required''\<rparr>,
       \<lparr>cached = \<lparr>conn = Some 1, promise = Some (Inr 1)\<rparr>, students = [],
        instructors = [], trace = [MongooseConnect]\<rparr>)"
    using C10_zero_age_is_missing_field [OF h, where ev = "online 100 1"
        and w = initial_world and rt = strict_runtime and k = Student]
    unfolding c by simp
  show ?thesis unfolding p using h by (simp add: initial_world_def)
qed

text \<open>
  C9. In a state the application reaches, a PUT with the body \<^verbatim>\<open>{ age: 30 }\<close> for the id
  of a stored document \<open>d\<close> leaves a document with that id whose name, email, id and
  creation date are those of \<open>d\<close>, and leaves every other document of the collection
  and the other collection as they were. With the connection obtained and the write
  carried out it sets the age to 30 and the update date to the time of the request,
  answering 200 with the new document; with no connection, or the write failing in the
  database, the document is unchanged and the answer is 400.
\<close>

theorem C9_update_age_only:
  assumes "reachable rt w" and "castObjectId rt i = Some j"
    and "find (\<lambda>x. doc_id x = j) (coll k w) = Some d"
  shows "\<exists>d'. find (\<lambda>x. doc_id x = j) (coll k (snd (PUT rt k ev i (Some age_30) w))) = Some d' \<and>
           name d' = name d \<and> email d' = email d \<and> doc_id d' = doc_id d \<and>
           createdAt d' = createdAt d \<and>
           filter (\<lambda>x. doc_id x \<noteq> j) (coll k (snd (PUT rt k ev i (Some age_30) w))) =
             filter (\<lambda>x. doc_id x \<noteq> j) (coll k w) \<and>
           (\<forall>k'. k' \<noteq> k \<longrightarrow> coll k' (snd (PUT rt k ev i (Some age_30) w)) = coll k' w) \<and>
           (case fst (connectToDatabase (connect ev) w) of
              Inr h \<Rightarrow>
                (case storage ev of
                   None \<Rightarrow> age d' = 30 \<and> updatedAt d' = now ev \<and>
                           fst (PUT rt k ev i (Some age_30) w) = ok (Doc (toJSON d'))
                 | Some x \<Rightarrow> d' = d \<and> status (fst (PUT rt k ev i (Some age_30) w)) = 400)
            | Inl e \<Rightarrow> d' = d \<and> status (fst (PUT rt k ev i (Some age_30) w)) = 400)"
proof -
  obtain r w1 where c: "connectToDatabase (connect ev) w = (r, w1)"
    by (cases "connectToDatabase (connect ev) w")
  have same: "coll k' w1 = coll k' w" for k'
    using coll_connect [of k' "connect ev" w] c by simp
  have inv: "index_inv (coll k w1)"
    using assms(1) same by (simp add: reachable_indexes_hold indexes_hold_collD)
  have j: "doc_id d = j" using assms(3) by (auto dest: find_SomeD)
  let ?d = "d\<lparr>age := 30, updatedAt := now ev\<rparr>"
  let ?f = "\<lambda>x. if doc_id x = j then ?d else x"
  have u: "findByIdAndUpdate rt k ev i age_30 w1 =
      (case storage ev of
         Some x \<Rightarrow> (Inl x, record_event (DbWrite k) (record_event (Validate k) w1))
       | None \<Rightarrow>
           (Inr (Some ?d),
            set_coll k (map ?f (coll k w1))
              (record_event (DbWrite k) (record_event (Validate k) w1))))"
    using inv assms(2) assms(3) [folded same] by (rule update_age_30)
  show ?thesis
  proof (cases r)
    case (Inl e)
    then have "PUT rt k ev i (Some age_30) w =
        (\<lparr>status = 400, payload = Err ''Failed to update''\<rparr>, w1)"
      using c by (simp add: PUT_def PUT_try_def)
    then show ?thesis using c Inl same assms(3) by simp
  next
    case (Inr h)
    show ?thesis
    proof (cases "storage ev")
      case (Some x)
      then have "PUT rt k ev i (Some age_30) w =
          (\<lparr>status = 400, payload = Err ''Failed to update''\<rparr>,
           record_event (DbWrite k) (record_event (Validate k) w1))"
        using c Inr u by (simp add: PUT_def PUT_try_def)
      then show ?thesis using c Inr Some same assms(3) by simp
    next
      case None
      have p: "PUT rt k ev i (Some age_30) w =
          (ok (Doc (toJSON ?d)),
           set_coll k (map ?f (coll k w))
             (record_event (DbWrite k) (record_event (Validate k) w1)))"
        using c Inr u None same by (simp add: PUT_def PUT_try_def)
      have f: "find (\<lambda>x. doc_id x = j) (map ?f (coll k w)) = Some ?d"
        using assms(3) j by (intro find_update) simp_all
      have g: "filter (\<lambda>x. doc_id x \<noteq> j) (map ?f (coll k w)) =
          filter (\<lambda>x. doc_id x \<noteq> j) (coll k w)"
        using j by (intro filter_update) simp
      show ?thesis using p c Inr None f g same by (simp add: coll_set_coll)
    qed
  qed
qed

text \<open>The student created above, updated at time 200.\<close>

theorem C9_update_age_only_witness:
  "PUT strict_runtime Student (online 200 2) ''000000000000000000000001'' (Some age_30)
     with_ann =
   (ok (Doc (toJSON \<lparr>doc_id = 1, name = ''Ann'', age = 30, email = ''ann@x.com'',
                     createdAt = 100, updatedAt = 200\<rparr>)),
    with_ann\<lparr>students := [\<lparr>doc_id = 1, name = ''Ann'', age = 30, email = ''ann@x.com'',
                            createdAt = 100, updatedAt = 200\<rparr>],
             trace := trace with_ann @ [Validate Student, DbWrite Student]\<rparr>) \<and>
   (\<exists>d'. find (\<lambda>x. doc_id x = 1)
            (coll Student (snd (PUT strict_runtime Student (online 200 2)
               ''000000000000000000000001'' (Some age_30) with_ann))) = Some d' \<and>
          name d' = ''Ann'' \<and> email d' = ''ann@x.com'' \<and> doc_id d' = 1 \<and>
          createdAt d' = 100 \<and> age d' = 30 \<and> updatedAt d' = 200)"
proof -
  let ?ann = "\<lparr>doc_id = 1, name = ''Ann'', age = 20, email = ''ann@x.com'',
               createdAt = 100, updatedAt = 100\<rparr>"
  have h2: "castObjectId strict_runtime ''000000000000000000000001'' = Some 1"
    by (simp add: example_defs)
  have h3: "find (\<lambda>x. doc_id x = 1) (coll Student with_ann) = Some ?ann"
    by (simp add: with_ann_eq)
  have c: "fst (connectToDatabase (connect (online 200 2)) with_ann) = Inr 1"
    by (simp add: with_ann_eq connectToDatabase_def online_def)
  have e: "PUT strict_runtime Student (online 200 2) ''000000000000000000000001'' (Some age_30)
       with_ann =
     (ok (Doc (toJSON \<lparr>doc_id = 1, name = ''Ann'', age = 30, email = ''ann@x.com'',
                       createdAt = 100, updatedAt = 200\<rparr>)),
      with_ann\<lparr>students := [\<lparr>doc_id = 1, name = ''Ann'', age = 30, email = ''ann@x.com'',
                              createdAt = 100, updatedAt = 200\<rparr>],
               trace := trace with_ann @ [Validate Student, DbWrite Student]\<rparr>)"
    by (simp add: with_ann_eq handler_defs example_defs)
  from C9_update_age_only [OF reachable_with_ann h2 h3, where ev = "online 200 2"] c
  have "\<exists>d'. find (\<lambda>x. doc_id x = 1)
            (coll Student (snd (PUT strict_runtime Student (online 200 2)
               ''000000000000000000000001'' (Some age_30) with_ann))) = Some d' \<and>
          name d' = ''Ann'' \<and> email d' = ''ann@x.com'' \<and> doc_id d' = 1 \<and>
          createdAt d' = 100 \<and> age d' = 30 \<and> updatedAt d' = 200"
    by (auto simp: online_def)
  with e show ?thesis by (rule conjI)
qed

end
